theory Spec2Isabelle
  imports Complex_Main
begin

section \<open>Portfolio valuation and indicators: a shallow embedding\<close>

text \<open>
  The development follows \<^verbatim>\<open>backend/utils/indicators.py\<close>,
  \<^verbatim>\<open>backend/utils/enhanced_indicators.py\<close> and
  \<^verbatim>\<open>backend/utils/data_fetcher.py\<close>.

  Conventions of the embedding:
  \<^item> a Python or numpy float is a \<^typ>\<open>real\<close>, without rounding and without
    infinities. NaN is modelled where the source treats it: in the closing prices and in
    the cells of the frame that \<^verbatim>\<open>calculate_portfolio_value\<close> builds, which
    \<^verbatim>\<open>fillna(0)\<close> clears before the frame is returned;
  \<^item> a calendar date is an \<^typ>\<open>int\<close> (a day number), so the difference of two
    dates in days is integer subtraction;
  \<^item> a numpy array or a pandas column is a list;
  \<^item> the frame that \<^verbatim>\<open>calculate_portfolio_value\<close> builds and returns is the list of
    its named columns, the date, the total and the symbols sharing one name space;
    \<^verbatim>\<open>calculate_indicators\<close> reads a frame by rows, each with its date, its total
    and its symbol columns, every value a number;
  \<^item> an exception is a value: a function that can raise returns a sum, with the
    exception on the left. The handlers of the source that catch failures of pandas
    itself (a comparison between dates of different kinds, an update of a cell) have
    nothing to catch here;
  \<^item> the printed diagnostics of the source are left out.
\<close>

subsection \<open>Daily returns (indicators.py, lines 195-209)\<close>

text \<open>
  \<^verbatim>\<open>valid_indices = np.where(daily_values[:-1] > 0)[0]\<close>: the positions of the
  array without its last entry that hold a positive value, in increasing order.
\<close>

definition valid_indices :: "real list \<Rightarrow> nat list" where
  "valid_indices daily_values =
     filter (\<lambda>i. daily_values ! i > 0) [0..<length daily_values - 1]"

text \<open>
  The two fancy-indexed arrays \<^verbatim>\<open>daily_values[valid_indices]\<close> and
  \<^verbatim>\<open>daily_values[valid_indices + 1]\<close> are combined elementwise. Every index read
  is below the length of the array, since a valid index is below \<open>length - 1\<close>.
\<close>

definition daily_returns :: "real list \<Rightarrow> real list" where
  "daily_returns daily_values =
     (if length daily_values > 1 then
        (let vi = valid_indices daily_values in
         if length vi > 0
         then map (\<lambda>i. (daily_values ! (i + 1) - daily_values ! i) / daily_values ! i) vi
         else [])
      else [])"

text \<open>
  The same array as the specification words it: walk the consecutive pairs of the
  series in order, emit the simple return of a pair whose first value is positive, and
  emit nothing for the other pairs.
\<close>

fun pairwise_returns :: "real list \<Rightarrow> real list" where
  "pairwise_returns (a # b # vs) =
     (if a > 0 then [(b - a) / a] else []) @ pairwise_returns (b # vs)"
| "pairwise_returns vs = []"

subsection \<open>Transactions, price data and value frames\<close>

text \<open>
  Dates enter the program as strings. A string is either one that the date parsers
  accept, standing for a day number, or one they reject; the rejected text is kept,
  because the fallback frame carries the start date as it was given.
\<close>

datatype date_str = Iso int | Unparseable string

definition parses :: "date_str \<Rightarrow> bool" where
  "parses d = (case d of Iso n \<Rightarrow> True | Unparseable s \<Rightarrow> False)"

text \<open>The \<^verbatim>\<open>StockTransaction\<close> model of app.py, lines 28-33.\<close>

record transaction =
  symbol :: string
  name :: string
  quantity :: real
  buy_date :: date_str
  buy_price :: real

text \<open>
  Every exception that the modelled code can raise is a \<^verbatim>\<open>ValueError\<close>: a date
  string that does not parse, an index inserted under the name of an existing column,
  and the arg-minimum of an empty series.
\<close>

datatype py_error = ValueError

text \<open>
  A row of a value frame as \<^verbatim>\<open>calculate_indicators\<close> reads it: its date, the
  \<^verbatim>\<open>TotalValue\<close> cell and the symbol columns in column order, every value a number.
\<close>

record 'd frame_row =
  Date :: 'd
  TotalValue :: real
  columns :: "(string \<times> real) list"

text \<open>
  A closing price and a cell of the frame under construction are floats that may be NaN.
  Addition and multiplication carry NaN on.
\<close>

datatype float = Fin real | NaN

definition fadd :: "float \<Rightarrow> float \<Rightarrow> float" where
  "fadd a b = (case a of NaN \<Rightarrow> NaN | Fin x \<Rightarrow> (case b of NaN \<Rightarrow> NaN | Fin y \<Rightarrow> Fin (x + y)))"

definition fscale :: "real \<Rightarrow> float \<Rightarrow> float" where
  "fscale q p = (case p of NaN \<Rightarrow> NaN | Fin x \<Rightarrow> Fin (q * x))"

text \<open>
  A cell of a returned frame is the text of a date or a float. A frame is the list of
  its named columns, in column order: its names are those of the date column, of the
  total column and of the symbols, in one name space.
\<close>

datatype cell = DateCell date_str | Num float

type_synonym 'a frame = "(string \<times> 'a list) list"

text \<open>
  The market-data provider (\<^verbatim>\<open>yf.download\<close>) is a parameter: asked for a symbol and
  a date range it raises, or returns the closing prices by trading day. A request is
  recorded as the triple of its arguments.
\<close>

datatype fetched = Raised | Data "(int \<times> float) list"

type_synonym provider = "string \<Rightarrow> date_str \<Rightarrow> date_str \<Rightarrow> fetched"

type_synonym request = "string \<times> date_str \<times> date_str"

text \<open>\<^verbatim>\<open>set(tx.symbol for tx in transactions)\<close>: each symbol once.\<close>

definition symbols :: "transaction list \<Rightarrow> string list" where
  "symbols transactions = remdups (map symbol transactions)"

text \<open>
  Lines 42-51: one download per symbol, with the start and end date as given. A
  download that raises leaves the symbol out of \<^verbatim>\<open>stock_data\<close>. The state of the
  loop is the dictionary together with the requests made so far.
\<close>

definition fetch_symbol ::
  "provider \<Rightarrow> date_str \<Rightarrow> date_str \<Rightarrow>
   (string \<rightharpoonup> (int \<times> float) list) \<times> request list \<Rightarrow> string \<Rightarrow>
   (string \<rightharpoonup> (int \<times> float) list) \<times> request list" where
  "fetch_symbol yf start_date end_date st smb =
     (case yf smb start_date end_date of
        Raised \<Rightarrow> (fst st, snd st @ [(smb, start_date, end_date)])
      | Data d \<Rightarrow> ((fst st)(smb \<mapsto> d), snd st @ [(smb, start_date, end_date)]))"

definition fetch_all ::
  "provider \<Rightarrow> date_str \<Rightarrow> date_str \<Rightarrow> string list \<Rightarrow>
   (string \<rightharpoonup> (int \<times> float) list) \<times> request list" where
  "fetch_all yf start_date end_date syms =
     foldl (fetch_symbol yf start_date end_date) (Map.empty, []) syms"

text \<open>
  \<^verbatim>\<open>get_stock_data\<close> of data_fetcher.py, lines 42-69: the start date moves back by
  five days before the download; any failure gives an empty table.
\<close>

definition get_stock_data ::
  "provider \<Rightarrow> string \<Rightarrow> date_str \<Rightarrow> date_str \<Rightarrow> (int \<times> float) list \<times> request list" where
  "get_stock_data yf smb start_date end_date =
     (case start_date of
        Unparseable s \<Rightarrow> ([], [])
      | Iso s \<Rightarrow>
          (case yf smb (Iso (s - 5)) end_date of
             Raised \<Rightarrow> ([], [(smb, Iso (s - 5), end_date)])
           | Data d \<Rightarrow> (d, [(smb, Iso (s - 5), end_date)])))"

text \<open>
  \<^verbatim>\<open>find_closest_trading_date\<close>, lines 114-132: the last index entry that is not
  after the target date.
\<close>

definition find_closest_trading_date :: "(int \<times> float) list \<Rightarrow> int \<Rightarrow> int option" where
  "find_closest_trading_date stock_df date =
     (let available_dates = filter (\<lambda>d. d \<le> date) (map fst stock_df)
      in if available_dates \<noteq> [] then Some (last available_dates) else None)"

text \<open>
  \<^verbatim>\<open>df[name] = value\<close> on a frame of \<open>n\<close> rows: a column of that name is
  overwritten, whatever it held; otherwise a new column is appended.
\<close>

definition set_column :: "nat \<Rightarrow> string \<Rightarrow> 'a \<Rightarrow> 'a frame \<Rightarrow> 'a frame" where
  "set_column n nm v df =
     (if nm \<in> set (map fst df)
      then map (\<lambda>(k, c). if k = nm then (k, replicate n v) else (k, c)) df
      else df @ [(nm, replicate n v)])"

text \<open>The row of a date in the index, which \<^verbatim>\<open>pd.date_range\<close> fills without repeats.\<close>

definition row_of :: "int list \<Rightarrow> int \<Rightarrow> nat" where
  "row_of idx date = length (takeWhile (\<lambda>d. d \<noteq> date) idx)"

text \<open>
  Lines 85-86 and 88-89: read the cell \<^verbatim>\<open>.at[date, name]\<close>, add the value, and
  write the sum back.
\<close>

definition add_at :: "int list \<Rightarrow> int \<Rightarrow> string \<Rightarrow> float \<Rightarrow> float frame \<Rightarrow> float frame" where
  "add_at idx date nm v df =
     map (\<lambda>(k, c). if k = nm
                    then (k, c[row_of idx date := fadd (c ! row_of idx date) v])
                    else (k, c)) df"

text \<open>
  The body of the loop over the index, lines 70-94, for one transaction and one date.
  The label lookup \<^verbatim>\<open>stock_df.loc[closest_date, 'Close']\<close> is \<^const>\<open>map_of\<close>. The
  symbol cell is updated first and the total cell after it, each by its own read and
  write, so a symbol that bears the name of the total column is added to twice.
\<close>

definition value_on_date ::
  "int list \<Rightarrow> (int \<times> float) list \<Rightarrow> transaction \<Rightarrow> int \<Rightarrow> float frame \<Rightarrow> int \<Rightarrow> float frame" where
  "value_on_date idx stock_df tx buy portfolio_value date =
     (if date \<ge> buy then
        (case find_closest_trading_date stock_df date of
           None \<Rightarrow> portfolio_value
         | Some closest_date \<Rightarrow>
             (case map_of stock_df closest_date of
                None \<Rightarrow> portfolio_value
              | Some price \<Rightarrow>
                  (let value = fscale (quantity tx) price;
                       pv1 = (if symbol tx \<notin> set (map fst portfolio_value)
                              then set_column (length idx) (symbol tx) (Fin 0) portfolio_value
                              else portfolio_value)
                   in add_at idx date ''TotalValue'' value
                        (add_at idx date (symbol tx) value pv1))))
      else portfolio_value)"

text \<open>
  The loop over the transactions, lines 54-94. The buy date is parsed first, so a
  string that does not parse raises even for a symbol without price data.
\<close>

fun value_transactions ::
  "int list \<Rightarrow> (string \<rightharpoonup> (int \<times> float) list) \<Rightarrow> transaction list \<Rightarrow> float frame \<Rightarrow>
   py_error + float frame" where
  "value_transactions idx stock_data [] portfolio_value = Inr portfolio_value"
| "value_transactions idx stock_data (tx # txs) portfolio_value =
     (case buy_date tx of
        Unparseable s \<Rightarrow> Inl ValueError
      | Iso buy \<Rightarrow>
          (case stock_data (symbol tx) of
             None \<Rightarrow> value_transactions idx stock_data txs portfolio_value
           | Some stock_df \<Rightarrow>
               if stock_df = [] then value_transactions idx stock_data txs portfolio_value
               else value_transactions idx stock_data txs
                      (foldl (value_on_date idx stock_df tx buy) portfolio_value idx)))"

text \<open>\<^verbatim>\<open>pd.date_range(start=start_date, end=end_date)\<close>: every calendar day.\<close>

definition date_range :: "date_str \<Rightarrow> date_str \<Rightarrow> py_error + int list" where
  "date_range start_date end_date =
     (case start_date of
        Unparseable s \<Rightarrow> Inl ValueError
      | Iso s \<Rightarrow> (case end_date of Unparseable e \<Rightarrow> Inl ValueError | Iso e \<Rightarrow> Inr [s..e]))"

text \<open>Line 97, \<^verbatim>\<open>fillna(0)\<close>: every NaN cell becomes zero, the other cells stay.\<close>

definition fillna :: "float frame \<Rightarrow> float frame" where
  "fillna df = map (\<lambda>(k, c). (k, map (\<lambda>x. case x of NaN \<Rightarrow> Fin 0 | Fin v \<Rightarrow> Fin v) c)) df"

text \<open>
  Lines 100-103: \<^verbatim>\<open>reset_index\<close> inserts the index, whose name is \<^verbatim>\<open>Date\<close>, as the
  first column, and raises when a column of that name is there already; the dates are
  then formatted as text.
\<close>

definition reset_index :: "int list \<Rightarrow> float frame \<Rightarrow> py_error + cell frame" where
  "reset_index idx df =
     (if ''Date'' \<in> set (map fst df) then Inl ValueError
      else Inr ((''Date'', map (\<lambda>d. DateCell (Iso d)) idx) #
                map (\<lambda>(k, c). (k, map Num c)) df))"

text \<open>
  The body of the \<^verbatim>\<open>try\<close> block of \<^verbatim>\<open>calculate_portfolio_value\<close>, lines 28-105: the
  total column and one column per symbol, all zero, then the values of the
  transactions, then the three closing steps.
\<close>

definition aggregate ::
  "provider \<Rightarrow> transaction list \<Rightarrow> date_str \<Rightarrow> date_str \<Rightarrow> py_error + cell frame" where
  "aggregate yf transactions start_date end_date =
     (case date_range start_date end_date of
        Inl e \<Rightarrow> Inl e
      | Inr idx \<Rightarrow>
          (let syms = symbols transactions;
               portfolio_value =
                 foldl (\<lambda>df s. set_column (length idx) s (Fin 0) df)
                   [(''TotalValue'', replicate (length idx) (Fin 0))] syms;
               stock_data = fst (fetch_all yf start_date end_date syms)
           in case value_transactions idx stock_data transactions portfolio_value of
                Inl e \<Rightarrow> Inl e
              | Inr pv \<Rightarrow> reset_index idx (fillna pv)))"

text \<open>The requests that \<^verbatim>\<open>calculate_portfolio_value\<close> sends to the provider.\<close>

definition price_requests ::
  "provider \<Rightarrow> transaction list \<Rightarrow> date_str \<Rightarrow> date_str \<Rightarrow> request list" where
  "price_requests yf transactions start_date end_date =
     (case date_range start_date end_date of
        Inl e \<Rightarrow> []
      | Inr idx \<Rightarrow> snd (fetch_all yf start_date end_date (symbols transactions)))"

text \<open>
  The frame of the \<^verbatim>\<open>except\<close> branch, lines 106-112: one row with the start date as
  given and a total of zero, then \<^verbatim>\<open>result[symbol] = 0.0\<close> for each symbol, which
  overwrites a column that bears the name of the symbol.
\<close>

definition minimal_frame :: "transaction list \<Rightarrow> date_str \<Rightarrow> cell frame" where
  "minimal_frame transactions start_date =
     foldl (\<lambda>df s. set_column 1 s (Num (Fin 0)) df)
       [(''Date'', [DateCell start_date]), (''TotalValue'', [Num (Fin 0)])]
       (symbols transactions)"

definition calculate_portfolio_value ::
  "provider \<Rightarrow> transaction list \<Rightarrow> date_str \<Rightarrow> date_str \<Rightarrow> cell frame" where
  "calculate_portfolio_value yf transactions start_date end_date =
     (case aggregate yf transactions start_date end_date of
        Inr portfolio_value \<Rightarrow> portfolio_value
      | Inl e \<Rightarrow> minimal_frame transactions start_date)"

subsection \<open>Drawdown episodes (enhanced_indicators.py, lines 316-351)\<close>

text \<open>
  An episode of \<^verbatim>\<open>drawdown_periods\<close>, and the state of the loop that finds them.
\<close>

record dd_period =
  period_start :: nat
  period_end :: nat
  period_depth :: real

record dd_state =
  peak :: real
  drawdowns :: "real list"
  drawdown_periods :: "dd_period list"
  current_drawdown_start :: "nat option"

text \<open>
  \<^verbatim>\<open>max\<close> of a list; every list it is applied to below is non-empty.
\<close>

fun max_list :: "real list \<Rightarrow> real" where
  "max_list [] = 0"
| "max_list (x # xs) = fold max xs x"

text \<open>
  The depth of an episode: the largest drawdown from the peak over the positions
  \<open>lo\<close> to \<open>hi - 1\<close>.
\<close>

definition depth_between :: "real list \<Rightarrow> real \<Rightarrow> nat \<Rightarrow> nat \<Rightarrow> real" where
  "depth_between portfolio_values pk lo hi =
     max_list (map (\<lambda>j. (pk - portfolio_values ! j) / pk) [lo..<hi])"

text \<open>
  The body of the loop, lines 322-343. A value above the peak moves the peak and
  forgets the open episode; any other value, under a positive peak, is a drawdown,
  which may open an episode (above 2 percent) or close and record the open one (below
  0.5 percent).
\<close>

definition dd_step :: "real list \<Rightarrow> dd_state \<Rightarrow> nat \<Rightarrow> dd_state" where
  "dd_step portfolio_values st i =
     (let value = portfolio_values ! i in
      if value > peak st then st\<lparr>peak := value, current_drawdown_start := None\<rparr>
      else if peak st > 0 then
        (let current_drawdown = (peak st - value) / peak st;
             st1 = st\<lparr>drawdowns := drawdowns st @ [current_drawdown]\<rparr>;
             st2 = (if current_drawdown_start st1 = None \<and> current_drawdown > 0.02
                    then st1\<lparr>current_drawdown_start := Some i\<rparr> else st1)
         in case current_drawdown_start st2 of
              None \<Rightarrow> st2
            | Some s \<Rightarrow>
                if current_drawdown < 0.005
                then st2\<lparr>drawdown_periods := drawdown_periods st2 @
                           [\<lparr>period_start = s, period_end = i,
                             period_depth = depth_between portfolio_values (peak st2) s (i + 1)\<rparr>],
                         current_drawdown_start := None\<rparr>
                else st2)
      else st)"

definition drawdown_scan :: "real list \<Rightarrow> dd_state" where
  "drawdown_scan portfolio_values =
     foldl (dd_step portfolio_values)
       \<lparr>peak = portfolio_values ! 0, drawdowns = [], drawdown_periods = [],
        current_drawdown_start = None\<rparr>
       [0..<length portfolio_values]"

text \<open>Lines 345-351: an episode that is open after the loop ends at the last position.\<close>

definition close_open_drawdown :: "real list \<Rightarrow> dd_state \<Rightarrow> dd_period list" where
  "close_open_drawdown portfolio_values st =
     (case current_drawdown_start st of
        None \<Rightarrow> drawdown_periods st
      | Some s \<Rightarrow>
          drawdown_periods st @
            [\<lparr>period_start = s, period_end = length portfolio_values - 1,
              period_depth = depth_between portfolio_values (peak st) s (length portfolio_values)\<rparr>])"

definition detailed_drawdown_periods :: "real list \<Rightarrow> dd_period list" where
  "detailed_drawdown_periods portfolio_values =
     close_open_drawdown portfolio_values (drawdown_scan portfolio_values)"

subsection \<open>The indicator report\<close>

text \<open>
  The report is a dictionary from indicator names to formatted values. The names of the
  source are Chinese texts; here \<open>K s\<close> is such a name under an English rendering \<open>s\<close>,
  and the function that writes an entry gives its line in the source. \<open>W n s\<close> is a
  name of a rolling analysis, into which the source formats the window size \<open>n\<close>, and
  \<open>Sym s\<close> is a stock symbol used as a name.
\<close>

datatype key = K string | W nat string | Sym string

text \<open>
  A formatted value keeps the number and the format that the source applies to it:
  \<^item> \<open>Percent x\<close> is \<^verbatim>\<open>f"{x:.2f}%"\<close>, \<open>Percent4 x\<close> is \<^verbatim>\<open>f"{x:.4f}%"\<close>,
    \<open>Ratio x\<close> is \<^verbatim>\<open>f"{x:.2f}"\<close>;
  \<^item> \<open>Days n\<close> and \<open>DaysAvg x\<close> are a number of days, an integer or with one decimal;
    \<open>Count n\<close> is \<^verbatim>\<open>str(n)\<close>; \<open>PerYear x\<close> is a yearly frequency with two decimals;
    \<open>DateText d\<close> is a formatted date;
  \<^item> \<open>Text s\<close> is a fixed message, given by an English rendering;
  \<^item> \<open>Labelled x s\<close> is a fixed message that starts with the number \<open>x\<close> printed
    with two decimals; \<open>Contributor s x\<close> names a symbol with its weight;
  \<^item> \<open>NonFinite\<close> stands for the text of an infinity or a NaN, where the float
    computation of the source divides by zero or averages an empty array;
  \<^item> \<open>Group\<close> is a nested dictionary.
\<close>

datatype ind_value =
    Percent real | Percent4 real | Ratio real
  | Days int | DaysAvg real | Count nat | PerYear real | DateText int
  | Text string | Labelled real string | Contributor string real
  | NonFinite
  | Group "(key \<times> ind_value) list"

type_synonym report = "key \<rightharpoonup> ind_value"

subsection \<open>Array functions of numpy and pandas\<close>

definition np_mean :: "real list \<Rightarrow> real" where
  "np_mean xs = sum_list xs / real (length xs)"

text \<open>\<^verbatim>\<open>np.std\<close>: the population standard deviation.\<close>

definition np_std :: "real list \<Rightarrow> real" where
  "np_std xs = sqrt (np_mean (map (\<lambda>x. (x - np_mean xs)\<^sup>2) xs))"

text \<open>The standard deviation of a pandas rolling window: one degree of freedom less.\<close>

definition sample_std :: "real list \<Rightarrow> real" where
  "sample_std xs =
     sqrt (sum_list (map (\<lambda>x. (x - np_mean xs)\<^sup>2) xs) / (real (length xs) - 1))"

text \<open>\<^verbatim>\<open>np.percentile(xs, q)\<close> with linear interpolation between order statistics.\<close>

definition np_percentile :: "real list \<Rightarrow> real \<Rightarrow> real" where
  "np_percentile xs q =
     (let sorted = sort xs;
          pos = (real (length xs) - 1) * q / 100;
          lo = nat \<lfloor>pos\<rfloor>;
          hi = min (lo + 1) (length xs - 1)
      in sorted ! lo + (pos - real lo) * (sorted ! hi - sorted ! lo))"

text \<open>\<^verbatim>\<open>min\<close> of a list; every list it is applied to below is non-empty.\<close>

fun min_list :: "real list \<Rightarrow> real" where
  "min_list [] = 0"
| "min_list (x # xs) = fold min xs x"

text \<open>
  The complete windows of \<^verbatim>\<open>Series.rolling(window)\<close>, oldest first. The positions
  before the first complete window hold NaN in pandas, and every reduction used below
  skips them.
\<close>

definition rolling_windows :: "nat \<Rightarrow> real list \<Rightarrow> real list list" where
  "rolling_windows window xs =
     map (\<lambda>i. take window (drop i xs)) [0..<length xs + 1 - window]"

subsection \<open>Drawdowns and streaks (indicators.py, lines 437-486)\<close>

definition max_drawdown_step :: "real \<times> real \<Rightarrow> real \<Rightarrow> real \<times> real" where
  "max_drawdown_step st value =
     (let max_so_far = (if value > fst st then value else fst st)
      in if max_so_far > 0
         then (max_so_far, max (snd st) ((max_so_far - value) / max_so_far))
         else (max_so_far, snd st))"

definition calculate_max_drawdown :: "real list \<Rightarrow> real" where
  "calculate_max_drawdown vals =
     (if length vals < 2 then 0
      else snd (foldl max_drawdown_step (vals ! 0, 0) vals))"

definition max_streak_step :: "nat \<times> nat \<Rightarrow> bool \<Rightarrow> nat \<times> nat" where
  "max_streak_step st value =
     (if value then (max (fst st) (snd st + 1), snd st + 1) else (fst st, 0))"

text \<open>The state is the pair of \<^verbatim>\<open>max_streak\<close> and \<^verbatim>\<open>current_streak\<close>.\<close>

definition calculate_max_streak :: "bool list \<Rightarrow> nat" where
  "calculate_max_streak binary_array = fst (foldl max_streak_step (0, 0) binary_array)"

subsection \<open>Concentration measures (indicators.py, lines 489-549)\<close>

text \<open>
  The weights arrive in percent. For two or more weights the Gini coefficient divides by
  the sum of the weights; numpy does not raise when that sum is zero.
\<close>

definition calculate_gini_coefficient :: "real list \<Rightarrow> real" where
  "calculate_gini_coefficient weights_pct =
     (let weights = sort (map (\<lambda>w. w / 100) weights_pct);
          n = length weights
      in if n \<le> 1 then 1
         else (let lorentz_curve_area =
                     sum_list (map (\<lambda>i. (real i + 1) * weights ! i) [0..<n]) /
                       (real n * sum_list weights)
               in 1 - 2 * lorentz_curve_area))"

definition calculate_diversity_score :: "real list \<Rightarrow> real" where
  "calculate_diversity_score weights_pct =
     (let weights = filter (\<lambda>w. w > 0) (map (\<lambda>w. w / 100) weights_pct)
      in if length weights \<le> 1 then 0
         else (let entropy = - sum_list (map (\<lambda>w. w * ln w) weights);
                   max_entropy = ln (real (length weights))
               in if max_entropy > 0 then entropy / max_entropy else 0))"

subsection \<open>Win and loss statistics (indicators.py, lines 552-598)\<close>

definition calculate_win_loss_metrics :: "real list \<Rightarrow> (key \<times> ind_value) list" where
  "calculate_win_loss_metrics rets =
     (let positive_returns = filter (\<lambda>x. x > 0) rets;
          negative_returns = filter (\<lambda>x. x < 0) rets;
          win_rate = real (length positive_returns) / real (length rets) * 100;
          avg_gain = (if length positive_returns > 0 then np_mean positive_returns * 100 else 0);
          avg_loss = (if length negative_returns > 0 then np_mean negative_returns * 100 else 0);
          expectancy = (win_rate / 100 * avg_gain / 100) + ((1 - win_rate / 100) * avg_loss / 100)
      in [(K ''detailed_win_rate'', Percent win_rate),
          (K ''avg_gain'',
             if length positive_returns > 0 then Percent4 avg_gain else Text ''N/A''),
          (K ''avg_loss'',
             if length negative_returns > 0 then Percent4 avg_loss else Text ''N/A''),
          (K ''gain_loss_ratio'',
             if avg_loss \<noteq> 0 then Ratio \<bar>avg_gain / avg_loss\<bar> else Text ''N/A (no loss)''),
          (K ''daily_expectancy'', Percent4 (expectancy * 100))])"

subsection \<open>Rolling windows (indicators.py, lines 601-643)\<close>

text \<open>
  \<^verbatim>\<open>calculate_rolling_metrics\<close>. The lowest historical volatility is looked up with
  \<^verbatim>\<open>rolling_std[rolling_std > 0].idxmin()\<close>, and the arg-minimum of an empty series
  raises \<^verbatim>\<open>ValueError\<close>: that is the case when no window has a positive standard
  deviation. The source calls the function with the windows 20 and 60.
\<close>

definition calculate_rolling_metrics ::
  "real list \<Rightarrow> nat \<Rightarrow> py_error + (key \<times> ind_value) list" where
  "calculate_rolling_metrics rets window =
     (if length rets < window then Inr [(W window ''rolling_analysis'', Text ''insufficient data'')]
      else
        (let rolling_mean = map np_mean (rolling_windows window rets);
             rolling_std = map sample_std (rolling_windows window rets);
             latest_rolling_return = last rolling_mean * 252 * 100;
             latest_rolling_volatility = last rolling_std * sqrt 252 * 100;
             positive_std = filter (\<lambda>s. s > 0) rolling_std
         in if positive_std = [] then Inl ValueError
            else Inr [(W window ''rolling_return'', Percent latest_rolling_return),
                      (W window ''rolling_volatility'', Percent latest_rolling_volatility),
                      (W window ''max_volatility'', Percent (max_list rolling_std * sqrt 252 * 100)),
                      (W window ''min_volatility'', Percent (min_list positive_std * sqrt 252 * 100))]))"

subsection \<open>Detailed rolling windows (enhanced_indicators.py, lines 259-298)\<close>

text \<open>
  Here the lowest volatility is guarded: without a positive entry it is zero. The
  rolling Sharpe ratio divides by the standard deviation of the last window.
\<close>

definition calculate_rolling_detailed_metrics :: "real list \<Rightarrow> nat \<Rightarrow> (key \<times> ind_value) list" where
  "calculate_rolling_detailed_metrics rets window =
     (if length rets < window then [(W window ''rolling_analysis'', Text ''insufficient data'')]
      else
        (let ws = rolling_windows window rets;
             rolling_return = map (\<lambda>w. np_mean w * 252 * 100) ws;
             rolling_vol = map (\<lambda>w. sample_std w * sqrt 252 * 100) ws;
             positive_vol = filter (\<lambda>v. v > 0) rolling_vol;
             last_window = last ws
         in [(W window ''rolling_return'', Percent (last rolling_return)),
             (W window ''rolling_volatility'', Percent (last rolling_vol)),
             (W window ''rolling_sharpe'',
                if sample_std last_window = 0 then NonFinite
                else Ratio ((np_mean last_window * 252 - 0.02) / (sample_std last_window * sqrt 252))),
             (W window ''max_return'', Percent (max_list rolling_return)),
             (W window ''min_return'', Percent (min_list rolling_return)),
             (W window ''max_volatility'', Percent (max_list rolling_vol)),
             (W window ''min_volatility'',
                Percent (if positive_vol \<noteq> [] then min_list positive_vol else 0)),
             (W window ''rolling_win_rate'',
                Percent (real (length (filter (\<lambda>x. x > 0) last_window)) /
                         real (length last_window) * 100))]))"

subsection \<open>Detailed win and loss statistics (enhanced_indicators.py, lines 166-257)\<close>

definition streak_step :: "nat list \<times> nat \<Rightarrow> bool \<Rightarrow> nat list \<times> nat" where
  "streak_step st value =
     (if value then (fst st, snd st + 1)
      else if snd st > 0 then (fst st @ [snd st], 0) else st)"

text \<open>The pair of \<^verbatim>\<open>max_streak\<close> and \<^verbatim>\<open>avg_streak\<close>.\<close>

definition calculate_streak_metrics :: "bool list \<Rightarrow> nat \<times> real" where
  "calculate_streak_metrics binary_array =
     (let st = foldl streak_step ([], 0) binary_array;
          streaks = (if snd st > 0 then fst st @ [snd st] else fst st)
      in if streaks = [] then (0, 0)
         else (fold max streaks 0, np_mean (map real streaks)))"

definition calculate_win_loss_detailed_metrics :: "real list \<Rightarrow> (key \<times> ind_value) list" where
  "calculate_win_loss_detailed_metrics rets =
     (if length rets < 10 then [(K ''win_loss_analysis'', Text ''insufficient data'')]
      else
        (let positive_returns = filter (\<lambda>x. x > 0) rets;
             negative_returns = filter (\<lambda>x. x < 0) rets;
             win_rate = real (length positive_returns) / real (length rets) * 100;
             avg_gain = np_mean positive_returns * 100;
             avg_loss = np_mean negative_returns * 100;
             expectancy =
               (if length positive_returns > 0 \<and> length negative_returns > 0
                then (win_rate / 100 * avg_gain / 100) + ((1 - win_rate / 100) * avg_loss / 100)
                else 0);
             win_streak = calculate_streak_metrics (map (\<lambda>x. x > 0) rets);
             loss_streak = calculate_streak_metrics (map (\<lambda>x. x < 0) rets)
         in [(K ''win_rate'', Percent win_rate), (K ''loss_rate'', Percent (100 - win_rate))] @
            (if length positive_returns > 0
             then [(K ''avg_gain'', Percent4 avg_gain),
                   (K ''max_daily_gain'', Percent4 (max_list positive_returns * 100))]
             else []) @
            (if length negative_returns > 0
             then [(K ''avg_loss'', Percent4 avg_loss),
                   (K ''max_daily_loss'', Percent4 (min_list negative_returns * 100))]
             else []) @
            (if length negative_returns > 0 \<and> np_mean negative_returns \<noteq> 0
             then [(K ''gain_loss_ratio'',
                      if positive_returns = [] then NonFinite
                      else Ratio \<bar>np_mean positive_returns / np_mean negative_returns\<bar>)]
             else []) @
            [(K ''daily_expectancy'', Percent4 (expectancy * 100)),
             (K ''max_win_streak'', Days (int (fst win_streak))),
             (K ''max_loss_streak'', Days (int (fst loss_streak))),
             (K ''avg_win_streak'', DaysAvg (snd win_streak)),
             (K ''avg_loss_streak'', DaysAvg (snd loss_streak))] @
            (if length rets > 30
             then [(K ''z_score'', Ratio (if np_std rets > 0 then np_mean rets / np_std rets else 0))]
             else [])))"

subsection \<open>Drawdown reports\<close>

text \<open>
  Both drawdown reports test each date with \<^verbatim>\<open>isinstance\<close> before they use it: a
  cell of the date list is a text or a timestamp. The lists they receive are as long as
  the value series, so every date index read below is in range.
\<close>

datatype date_cell = AsText date_str | AsStamp int

text \<open>
  \<^verbatim>\<open>max(drawdown_periods, key=lambda x: x['depth'])\<close>: the first episode of the
  greatest depth.
\<close>

definition deepest_period :: "dd_period list \<Rightarrow> dd_period" where
  "deepest_period ps =
     fold (\<lambda>p best. if period_depth p > period_depth best then p else best) (tl ps) (hd ps)"

text \<open>\<^verbatim>\<open>calculate_detailed_drawdown_metrics\<close>, enhanced_indicators.py, lines 300-388.\<close>

definition calculate_detailed_drawdown_metrics ::
  "real list \<Rightarrow> date_cell list \<Rightarrow> (key \<times> ind_value) list" where
  "calculate_detailed_drawdown_metrics portfolio_values dates =
     (if length portfolio_values < 5 then [(K ''drawdown_analysis'', Text ''insufficient data'')]
      else
        (let dds = drawdowns (drawdown_scan portfolio_values);
             periods = detailed_drawdown_periods portfolio_values;
             durations =
               concat (map (\<lambda>p. case dates ! period_start p of
                                    AsText s \<Rightarrow> []
                                  | AsStamp a \<Rightarrow>
                                      (case dates ! period_end p of
                                         AsText e \<Rightarrow> []
                                       | AsStamp b \<Rightarrow> [b - a])) periods)
         in if dds = [] then []
            else
              [(K ''max_drawdown'', Percent (max_list dds * 100)),
               (K ''avg_drawdown'', Percent (np_mean dds * 100)),
               (K ''significant_drawdowns_5'',
                  Count (length (filter (\<lambda>p. period_depth p > 0.05) periods)))] @
              (if periods \<noteq> [] \<and> dates \<noteq> [] \<and> durations \<noteq> []
               then [(K ''avg_drawdown_duration'', DaysAvg (np_mean (map real_of_int durations))),
                     (K ''longest_drawdown_duration'', Days (fold max (tl durations) (hd durations)))]
               else []) @
              (if periods \<noteq> [] \<and> dates \<noteq> []
               then (case dates ! period_start (deepest_period periods) of
                       AsText s \<Rightarrow> []
                     | AsStamp a \<Rightarrow>
                         (case dates ! period_end (deepest_period periods) of
                            AsText e \<Rightarrow> []
                          | AsStamp b \<Rightarrow>
                              [(K ''max_drawdown_start'', DateText a),
                               (K ''max_drawdown_end'', DateText b),
                               (K ''max_drawdown_duration'', Days (b - a))]))
               else [])))"

text \<open>
  \<^verbatim>\<open>calculate_drawdown_metrics\<close>, indicators.py, lines 646-747. The state of its loop:
  the peak and its position, the list of drawdowns, and the greatest drawdown with the
  positions of its peak and of its trough.
\<close>

record mdd_state =
  peak_value :: real
  peak_idx :: nat
  dd_list :: "real list"
  max_dd :: real
  max_drawdown_start_idx :: nat
  max_drawdown_end_idx :: nat

definition mdd_step :: "real list \<Rightarrow> mdd_state \<Rightarrow> nat \<Rightarrow> mdd_state" where
  "mdd_step portfolio_values st i =
     (let value = portfolio_values ! i;
          st1 = (if value > peak_value st then st\<lparr>peak_value := value, peak_idx := i\<rparr> else st);
          current_drawdown =
            (if peak_value st1 > 0 then (peak_value st1 - value) / peak_value st1 else 0);
          st2 = st1\<lparr>dd_list := dd_list st1 @ [current_drawdown]\<rparr>
      in if current_drawdown > max_dd st2
         then st2\<lparr>max_dd := current_drawdown, max_drawdown_start_idx := peak_idx st2,
                  max_drawdown_end_idx := i\<rparr>
         else st2)"

text \<open>Lines 709-713: the first later position whose value is back at the value of the peak.\<close>

definition recovery_index :: "real list \<Rightarrow> nat \<Rightarrow> nat \<Rightarrow> nat option" where
  "recovery_index portfolio_values start_idx end_idx =
     (case filter (\<lambda>i. portfolio_values ! i \<ge> portfolio_values ! start_idx)
             [end_idx + 1..<length portfolio_values] of
        [] \<Rightarrow> None
      | i # rest \<Rightarrow> Some i)"

definition recovery_entries ::
  "real list \<Rightarrow> date_cell list \<Rightarrow> nat \<Rightarrow> nat \<Rightarrow> int \<Rightarrow> int \<Rightarrow> (key \<times> ind_value) list" where
  "recovery_entries portfolio_values dates start_idx end_idx a b =
     (case recovery_index portfolio_values start_idx end_idx of
        None \<Rightarrow> [(K ''recovery'', Text ''not yet recovered to the peak'')]
      | Some r \<Rightarrow>
          if r < length dates
          then (case dates ! r of
                  AsText s \<Rightarrow> [(K ''recovery'', Text ''not yet recovered to the peak'')]
                | AsStamp c \<Rightarrow>
                    [(K ''recovery_date'', DateText c),
                     (K ''recovery_time'', Days (c - b)),
                     (K ''full_cycle'', Days ((b - a) + (c - b)))])
          else [(K ''recovery'', Text ''not yet recovered to the peak'')])"

definition calculate_drawdown_metrics ::
  "real list \<Rightarrow> date_cell list \<Rightarrow> (key \<times> ind_value) list" where
  "calculate_drawdown_metrics portfolio_values dates =
     (if length portfolio_values < 5 then [(K ''drawdown_analysis'', Text ''insufficient data'')]
      else
        (let st = foldl (mdd_step portfolio_values)
                    \<lparr>peak_value = portfolio_values ! 0, peak_idx = 0, dd_list = [], max_dd = 0,
                     max_drawdown_start_idx = 0, max_drawdown_end_idx = 0\<rparr>
                    [0..<length portfolio_values];
             s = max_drawdown_start_idx st;
             e = max_drawdown_end_idx st;
             significant_drawdowns = length (filter (\<lambda>dd. dd > 0.02) (dd_list st))
         in (if max_dd st > 0 \<and> s < length dates \<and> e < length dates
             then (case dates ! s of
                     AsText t \<Rightarrow> []
                   | AsStamp a \<Rightarrow>
                       (case dates ! e of
                          AsText t \<Rightarrow> []
                        | AsStamp b \<Rightarrow>
                            [(K ''max_drawdown_start'', DateText a),
                             (K ''max_drawdown_end'', DateText b),
                             (K ''max_drawdown_duration'', Days (b - a))] @
                            recovery_entries portfolio_values dates s e a b))
             else []) @
            (if dd_list st \<noteq> []
             then [(K ''avg_drawdown'', Percent (np_mean (dd_list st) * 100)),
                   (K ''significant_drawdowns_2'', Count significant_drawdowns)] @
                  (if length dates > 1
                   then (case dates ! 0 of
                           AsText t \<Rightarrow> []
                         | AsStamp f \<Rightarrow>
                             (case last dates of
                                AsText t \<Rightarrow> []
                              | AsStamp l \<Rightarrow>
                                  if real_of_int (l - f) / 365 > 0
                                  then [(K ''annual_drawdown_frequency'',
                                           PerYear (real significant_drawdowns /
                                                    (real_of_int (l - f) / 365)))]
                                  else []))
                   else [])
             else [])))"

subsection \<open>Enhanced indicators (enhanced_indicators.py, lines 6-164)\<close>

text \<open>
  \<^verbatim>\<open>max(d.items(), key=lambda x: x[1])\<close>: the first entry of the greatest value.
\<close>

definition max_item :: "(string \<times> real) list \<Rightarrow> string \<times> real" where
  "max_item items = fold (\<lambda>p best. if snd p > snd best then p else best) (tl items) (hd items)"

text \<open>
  The annualised return of this module, lines 25-40; the elapsed time is in years of
  365.25 days.
\<close>

definition enhanced_annualized_return :: "real \<Rightarrow> real \<Rightarrow> int \<Rightarrow> real" where
  "enhanced_annualized_return initial_investment final_value days =
     (let total_return =
            (if initial_investment > 0
             then (final_value - initial_investment) / initial_investment else 0);
          time_diff = real_of_int days / 365.25
      in if time_diff > 0.01 \<and> initial_investment > 0 \<and> final_value > 0
         then (if final_value > initial_investment
               then (1 + total_return) powr (1 / time_diff) - 1
               else ((final_value - initial_investment) / initial_investment) *
                    (365 / real_of_int days))
         else 0)"

text \<open>Lines 64-116, entered when there is a daily return.\<close>

definition enhanced_risk_entries :: "real list \<Rightarrow> real \<Rightarrow> (key \<times> ind_value) list" where
  "enhanced_risk_entries rets annualized_return =
     (let daily_volatility = np_std rets;
          risk_free_rate = 0.02;
          daily_risk_free = risk_free_rate / 252;
          downside_returns = filter (\<lambda>r. r < daily_risk_free) rets;
          downside_deviation = np_std downside_returns * sqrt 252;
          beta = 1;
          var_95 = np_percentile rets 5 * sqrt 1;
          market_return = 0.08;
          tracking_error = 0.05
      in [(K ''daily_volatility'', Percent4 (daily_volatility * 100)),
          (K ''annualized_volatility'', Percent (daily_volatility * sqrt 252 * 100)),
          (K ''sortino_ratio'',
             if length downside_returns > 0
             then Ratio (if downside_deviation > 0
                         then (annualized_return - risk_free_rate) / downside_deviation else 0)
             else Text ''no downside volatility''),
          (K ''treynor_ratio'', Ratio ((annualized_return - risk_free_rate) / beta)),
          (K ''var_95'', Percent (var_95 * 100)),
          (K ''cvar_95'', Percent (np_mean (filter (\<lambda>r. r \<le> var_95) rets) * 100)),
          (K ''downside_deviation'',
             Percent (sqrt (np_mean (map (\<lambda>r. (min (r - 0) 0)\<^sup>2) rets)) * sqrt 252 * 100)),
          (K ''alpha'',
             Percent ((annualized_return -
                       (risk_free_rate + beta * (market_return - risk_free_rate))) * 100)),
          (K ''information_ratio'', Ratio ((annualized_return - market_return) / tracking_error))])"

text \<open>
  Lines 118-150. The Gini coefficient of this module comes from the package
  \<^verbatim>\<open>pygini\<close>, which is a parameter here.
\<close>

definition enhanced_weight_entries ::
  "(real list \<Rightarrow> real) \<Rightarrow> date_str frame_row list \<Rightarrow> transaction list \<Rightarrow>
   (key \<times> ind_value) list" where
  "enhanced_weight_entries gini rows transactions =
     (let cols = columns (last rows);
          symbol_values =
            concat (map (\<lambda>s. case map_of cols s of None \<Rightarrow> [] | Some v \<Rightarrow> [(s, v)])
                      (symbols transactions));
          total_portfolio_value = sum_list (map snd symbol_values);
          weights = map (\<lambda>(s, v). (s, v / total_portfolio_value * 100)) symbol_values;
          numeric_weights = map snd weights
      in if total_portfolio_value > 0
         then [(K ''stock_weights'', Group (map (\<lambda>(s, w). (Sym s, Percent w)) weights))] @
              (if length numeric_weights > 0
               then [(K ''hhi'', Ratio (sum_list (map (\<lambda>w. (w / 100)\<^sup>2) numeric_weights)))]
               else []) @
              (if length numeric_weights > 1
               then [(K ''gini_coefficient'', Ratio (gini numeric_weights))] else []) @
              (if symbol_values \<noteq> []
               then [(K ''max_contributor'',
                        Contributor (fst (max_item symbol_values))
                          (snd (max_item symbol_values) / total_portfolio_value * 100))]
               else [])
         else [])"

definition calculate_enhanced_indicators ::
  "(real list \<Rightarrow> real) \<Rightarrow> date_str frame_row list \<Rightarrow> real list \<Rightarrow> real \<Rightarrow> real \<Rightarrow>
   int \<Rightarrow> int \<Rightarrow> transaction list \<Rightarrow> (key \<times> ind_value) list" where
  "calculate_enhanced_indicators gini rows rets initial_investment final_value
       first_date last_date transactions =
     (let total_return =
            (if initial_investment > 0
             then (final_value - initial_investment) / initial_investment else 0);
          annualized_return =
            enhanced_annualized_return initial_investment final_value (last_date - first_date)
      in [(K ''roi'', Percent (total_return * 100)),
          (K ''absolute_return'', Ratio (final_value - initial_investment)),
          (K ''time_weighted_return'',
             if length rets > 0
             then Percent ((prod_list (map (\<lambda>r. 1 + r) rets) - 1) * 100) else Text ''N/A''),
          (K ''money_weighted_return'',
             if length transactions = 1 then Percent (annualized_return * 100)
             else Text ''needs detailed cash flow data'')] @
         (if length rets > 0 then enhanced_risk_entries rets annualized_return else []) @
         enhanced_weight_entries gini rows transactions @
         [(K ''turnover'', Text ''0%''),
          (K ''expense_ratio'', Text ''N/A (needs expense data)''),
          (K ''cash_drag'', Text ''N/A (needs cash data)'')])"

subsection \<open>The indicator report (indicators.py, lines 134-434)\<close>

text \<open>
  Lines 177-193: the initial investment, put to one when the sum of the costs is not
  positive, and the final value, put to zero when the last total is negative.
\<close>

definition initial_investment :: "transaction list \<Rightarrow> real" where
  "initial_investment transactions =
     (let total = sum_list (map (\<lambda>tx. quantity tx * buy_price tx) transactions)
      in if total \<le> 0 then 1 else total)"

definition final_value_of :: "real list \<Rightarrow> real" where
  "final_value_of total_values =
     (if length total_values > 0
      then (if last total_values < 0 then 0 else last total_values)
      else 0)"

text \<open>\<^verbatim>\<open>pd.to_datetime\<close> on the date column, line 163: it raises on a text that is no date.\<close>

definition day_of :: "date_str \<Rightarrow> int" where
  "day_of d = (case d of Iso n \<Rightarrow> n | Unparseable s \<Rightarrow> 0)"

definition to_datetime :: "date_str list \<Rightarrow> py_error + int list" where
  "to_datetime ds = (if list_all parses ds then Inr (map day_of ds) else Inl ValueError)"

text \<open>
  Lines 211-219, the total return in percent and its entry.
\<close>

definition total_return_pct :: "real \<Rightarrow> real \<Rightarrow> real" where
  "total_return_pct initial final = (final - initial) / initial * 100"

definition total_return_entry :: "real \<Rightarrow> real \<Rightarrow> ind_value" where
  "total_return_entry initial final =
     (if initial > 0 then Percent (total_return_pct initial final)
      else Text ''N/A (initial investment is zero)'')"

text \<open>
  Lines 221-241, the annualised return in percent: the entry of the report and the
  value of the variable \<^verbatim>\<open>annualized_return\<close>, which is zero when the entry is not
  available.
\<close>

definition annualized_return_pct :: "int \<Rightarrow> real \<Rightarrow> real \<Rightarrow> real" where
  "annualized_return_pct days initial final =
     (if days > 0 \<and> initial > 0 \<and> final > 0
      then (let years = real_of_int days / 365
            in if final > initial
               then ((final / initial) powr (1 / years) - 1) * 100
               else ((final - initial) / initial) * (365 / real_of_int days) * 100)
      else 0)"

definition annualized_return_entry :: "int \<Rightarrow> real \<Rightarrow> real \<Rightarrow> ind_value" where
  "annualized_return_entry days initial final =
     (if days > 0 \<and> initial > 0 \<and> final > 0
      then Percent (annualized_return_pct days initial final)
      else Text ''N/A'')"

text \<open>Lines 349-354, the Calmar ratio; both arguments are in percent.\<close>

definition calmar_entry :: "real \<Rightarrow> real \<Rightarrow> ind_value" where
  "calmar_entry max_drawdown annualized_return =
     (if max_drawdown > 0 \<and> annualized_return \<noteq> 0
      then Ratio \<bar>annualized_return / max_drawdown\<bar>
      else Text ''N/A'')"

text \<open>
  Lines 244-358 of the risk section, up to the win and loss statistics: none of these
  steps raises. The entries of the enhanced indicators are taken only under names that
  the report does not hold yet. The variable \<^verbatim>\<open>total_return\<close> of the source is
  assigned where the initial investment is positive, which it always is.
\<close>

definition risk_entries ::
  "(real list \<Rightarrow> real) \<Rightarrow> date_str frame_row list \<Rightarrow> transaction list \<Rightarrow> real list \<Rightarrow>
   real list \<Rightarrow> real \<Rightarrow> real \<Rightarrow> int \<Rightarrow> int \<Rightarrow> report \<Rightarrow> report" where
  "risk_entries gini rows transactions rets total_values initial final first_date last_date
       indicators =
     (let total_return = total_return_pct initial final;
          annualized_return = annualized_return_pct (last_date - first_date) initial final;
          max_drawdown = calculate_max_drawdown total_values * 100;
          i1 = indicators(K ''volatility'' \<mapsto> Percent (np_std rets * sqrt 252 * 100),
                          K ''max_drawdown'' \<mapsto> Percent max_drawdown);
          i2 = map_of (calculate_enhanced_indicators gini rows rets initial final
                         first_date last_date transactions) ++ i1;
          i3 = (if length rets > 10
                then i2(K ''win_loss_detail'' \<mapsto> Group (calculate_win_loss_detailed_metrics rets))
                else i2);
          i4 = (if length rets \<ge> 60
                then i3(W 20 ''rolling_analysis'' \<mapsto> Group (calculate_rolling_detailed_metrics rets 20),
                        W 60 ''rolling_analysis'' \<mapsto> Group (calculate_rolling_detailed_metrics rets 60))
                else i3);
          i5 = (if length total_values > 30
                then i4(K ''drawdown_detail'' \<mapsto>
                          Group (calculate_detailed_drawdown_metrics total_values
                                   (map (\<lambda>r. AsText (Date r)) rows)))
                else i4);
          risk_free_rate = 0.02;
          daily_std = np_std rets;
          negative_returns = filter (\<lambda>r. r < 0) rets;
          i6 = i5(K ''sharpe_ratio'' \<mapsto>
                    (if daily_std > 0
                     then Ratio ((np_mean rets * 252 - risk_free_rate) / (daily_std * sqrt 252))
                     else Text ''N/A (no volatility)''),
                  K ''return_risk_ratio'' \<mapsto>
                    (if max_drawdown > 0 then Ratio \<bar>total_return / max_drawdown\<bar>
                     else Text ''N/A (no drawdown)''),
                  K ''downside_risk'' \<mapsto>
                    (if length negative_returns > 0
                     then Percent (np_std negative_returns * sqrt 252 * 100) else Percent 0),
                  K ''sortino_ratio'' \<mapsto>
                    (if length negative_returns > 0 \<and> np_std negative_returns > 0
                     then Ratio ((np_mean rets * 252 - risk_free_rate) /
                                 (np_std negative_returns * sqrt 252))
                     else Text ''N/A (no downside risk)''),
                  K ''max_up_streak'' \<mapsto>
                    Days (int (calculate_max_streak (map (\<lambda>r. r > 0) rets))),
                  K ''max_down_streak'' \<mapsto>
                    Days (int (calculate_max_streak (map (\<lambda>r. r < 0) rets))),
                  K ''win_rate'' \<mapsto>
                    Percent (real (length (filter (\<lambda>r. r > 0) rets)) / real (length rets) * 100),
                  K ''avg_daily_return'' \<mapsto> Percent4 (np_mean rets * 100),
                  K ''calmar_ratio'' \<mapsto> calmar_entry max_drawdown annualized_return)
      in i6 ++ map_of (calculate_win_loss_metrics rets))"

text \<open>
  Lines 360-375: the rolling metrics for the windows 20 and 60, each behind a test of
  the length of the series, and the drawdown metrics. An exception of
  \<^const>\<open>calculate_rolling_metrics\<close> leaves \<^verbatim>\<open>calculate_indicators\<close>.
\<close>

definition rolling_entries :: "real list \<Rightarrow> nat \<Rightarrow> report \<Rightarrow> py_error + report" where
  "rolling_entries rets window indicators =
     (if length rets \<ge> window
      then (case calculate_rolling_metrics rets window of
              Inl e \<Rightarrow> Inl e
            | Inr rolling \<Rightarrow> Inr (indicators ++ map_of rolling))
      else Inr indicators)"

definition drawdown_entries :: "real list \<Rightarrow> int list \<Rightarrow> report \<Rightarrow> report" where
  "drawdown_entries total_values dates indicators =
     (if length total_values > 20 \<and> length dates = length total_values
      then indicators ++ map_of (calculate_drawdown_metrics total_values (map AsStamp dates))
      else indicators)"

text \<open>Lines 376-388: without a daily return every risk entry is not available.\<close>

definition no_risk_entries :: "report \<Rightarrow> report" where
  "no_risk_entries indicators =
     indicators ++ map_of (map (\<lambda>k. (K k, Text ''N/A''))
       [''volatility'', ''max_drawdown'', ''sharpe_ratio'', ''return_risk_ratio'',
        ''downside_risk'', ''sortino_ratio'', ''max_up_streak'', ''max_down_streak'',
        ''win_rate'', ''avg_daily_return'', ''calmar_ratio''])"

text \<open>
  Lines 390-432: the weights of the symbol columns on the last row, and the
  concentration entries. The Gini coefficient of two or more weights divides by their
  sum.
\<close>

definition portfolio_entries :: "date_str frame_row list \<Rightarrow> real \<Rightarrow> report \<Rightarrow> report" where
  "portfolio_entries rows final indicators =
     (let latest_values = columns (last rows)
      in if final > 0 \<and> latest_values \<noteq> []
         then
           (let weights = map (\<lambda>(s, v). (s, v / final * 100)) latest_values;
                i1 = indicators(K ''stock_weights'' \<mapsto>
                                  Group (map (\<lambda>(s, w). (Sym s, Percent w)) weights));
                i2 = (if length weights > 1
                      then i1(K ''gini_concentration'' \<mapsto>
                                (if sum_list (map snd weights) = 0 then NonFinite
                                 else Ratio (calculate_gini_coefficient (map snd weights))),
                              K ''entropy_diversity'' \<mapsto>
                                Ratio (calculate_diversity_score (map snd weights)))
                      else i1(K ''gini_concentration'' \<mapsto> Labelled 1 ''single investment'',
                              K ''entropy_diversity'' \<mapsto> Labelled 0 ''single investment''))
            in i2(K ''max_contributor'' \<mapsto>
                    Contributor (fst (max_item weights)) (snd (max_item weights))))
         else indicators(K ''stock_weights'' \<mapsto>
                           Group (map (\<lambda>(s, v). (Sym s, Percent 0)) latest_values),
                         K ''max_contributor'' \<mapsto> Text ''none (portfolio value is 0)'',
                         K ''gini_concentration'' \<mapsto> Text ''N/A'',
                         K ''entropy_diversity'' \<mapsto> Text ''N/A''))"

definition calculate_indicators ::
  "(real list \<Rightarrow> real) \<Rightarrow> date_str frame_row list \<Rightarrow> transaction list \<Rightarrow> py_error + report" where
  "calculate_indicators gini rows transactions =
     (if length rows < 2
      then Inr [K ''info'' \<mapsto> Text ''insufficient data points'']
      else
        (case to_datetime (map Date rows) of
           Inl e \<Rightarrow> Inl e
         | Inr dates \<Rightarrow>
             (let total_values = map TotalValue rows;
                  first_date = dates ! 0;
                  last_date = dates ! (length dates - 1);
                  initial = initial_investment transactions;
                  final = final_value_of total_values;
                  rets = daily_returns total_values;
                  i1 = [K ''total_return'' \<mapsto> total_return_entry initial final,
                        K ''annualized_return'' \<mapsto>
                          annualized_return_entry (last_date - first_date) initial final]
              in if length rets > 0
                 then (case rolling_entries rets 20
                              (risk_entries gini rows transactions rets total_values initial
                                 final first_date last_date i1) of
                         Inl e \<Rightarrow> Inl e
                       | Inr i2 \<Rightarrow>
                           (case rolling_entries rets 60 i2 of
                              Inl e \<Rightarrow> Inl e
                            | Inr i3 \<Rightarrow>
                                Inr (portfolio_entries rows final
                                       (drawdown_entries total_values dates i3))))
                 else Inr (portfolio_entries rows final (no_risk_entries i1)))))"

text \<open>
  The days between the first and the last date of a frame, and the condition under which
  \<^const>\<open>calculate_rolling_metrics\<close> raises: the series fills the window and no window
  has a positive standard deviation.
\<close>

definition elapsed_days :: "date_str frame_row list \<Rightarrow> int" where
  "elapsed_days rows = day_of (Date (last rows)) - day_of (Date (hd rows))"

definition degenerate_window :: "real list \<Rightarrow> nat \<Rightarrow> bool" where
  "degenerate_window rets window =
     (length rets \<ge> window \<and>
      filter (\<lambda>s. s > 0) (map sample_std (rolling_windows window rets)) = [])"

subsection \<open>Reading a report, and sample frames\<close>

text \<open>
  The entry of a report under a name: there is none when \<^verbatim>\<open>calculate_indicators\<close>
  raised, or when the report has no such name.
\<close>

definition report_entry :: "py_error + report \<Rightarrow> key \<Rightarrow> ind_value option" where
  "report_entry result k = (case result of Inl e \<Rightarrow> None | Inr rep \<Rightarrow> rep k)"

text \<open>
  Sample data: a stand-in for the Gini function of \<^verbatim>\<open>pygini\<close>, one transaction of one
  share bought at 100, and the frame of a single symbol with given dates and values.
\<close>

definition sample_gini :: "real list \<Rightarrow> real" where
  "sample_gini ws = 0"

definition one_share :: "transaction list" where
  "one_share =
     [\<lparr>symbol = ''AAA'', name = ''A'', quantity = 1, buy_date = Iso 0, buy_price = 100\<rparr>]"

definition frame_of :: "(int \<times> real) list \<Rightarrow> date_str frame_row list" where
  "frame_of points =
     map (\<lambda>(d, v). \<lparr>Date = Iso d, TotalValue = v, columns = [(''AAA'', v)]\<rparr>) points"

text \<open>
  Ten shares bought at 100, and a frame of 21 days on which they are worth 1000 throughout.
\<close>

definition ten_shares :: "transaction list" where
  "ten_shares =
     [\<lparr>symbol = ''AAA'', name = ''A'', quantity = 10, buy_date = Iso 0, buy_price = 100\<rparr>]"

definition flat_frame :: "date_str frame_row list" where
  "flat_frame = frame_of (map (\<lambda>d. (d, 1000)) [0..20])"

text \<open>
  A frame of 21 days whose value steps from 1000 to 1100 on the last day, and the names
  of the four entries that \<^const>\<open>calculate_rolling_metrics\<close> writes for a window.
\<close>

definition step_frame :: "date_str frame_row list" where
  "step_frame = frame_of (map (\<lambda>d. (d, 1000)) [0..19] @ [(20, 1100)])"

definition flat_names :: "string list" where
  "flat_names = [''rolling_return'', ''rolling_volatility'', ''max_volatility'', ''min_volatility'']"

subsection \<open>Sample data for the valuation\<close>

text \<open>
  A provider backed by a fixed table of closing prices. It answers with the entries of
  the requested range, with an empty table for an unknown symbol, and raises on a date
  that does not parse.
\<close>

definition table_feed :: "(string \<times> (int \<times> float) list) list \<Rightarrow> provider" where
  "table_feed tbl smb start_date end_date =
     (case start_date of
        Unparseable s \<Rightarrow> Raised
      | Iso s \<Rightarrow>
          (case end_date of
             Unparseable e \<Rightarrow> Raised
           | Iso e \<Rightarrow>
               (case map_of tbl smb of
                  None \<Rightarrow> Data []
                | Some series \<Rightarrow> Data (filter (\<lambda>(d, p). s \<le> d \<and> d \<le> e) series))))"

text \<open>Two symbols with a close on day 1; in the second table the close of AAA is NaN.\<close>

definition two_symbol_feed :: provider where
  "two_symbol_feed = table_feed [(''AAA'', [(1, Fin 10)]), (''BBB'', [(1, Fin 6)])]"

definition nan_close_feed :: provider where
  "nan_close_feed = table_feed [(''AAA'', [(1, NaN)]), (''BBB'', [(1, Fin 6)])]"

definition two_symbol_txs :: "transaction list" where
  "two_symbol_txs =
     [\<lparr>symbol = ''AAA'', name = ''A'', quantity = 2, buy_date = Iso 1, buy_price = 10\<rparr>,
      \<lparr>symbol = ''BBB'', name = ''B'', quantity = 3, buy_date = Iso 1, buy_price = 6\<rparr>]"

text \<open>Day 5 is a Friday with a close of 100; days 6 and 7 are the weekend after it.\<close>

definition friday_feed :: provider where
  "friday_feed = table_feed [(''AAA'', [(5, Fin 100)])]"

definition saturday_txs :: "transaction list" where
  "saturday_txs =
     [\<lparr>symbol = ''AAA'', name = ''A'', quantity = 10, buy_date = Iso 6, buy_price = 100\<rparr>]"

text \<open>A transaction whose buy date does not parse, and one whose symbol is named Date.\<close>

definition bad_date_txs :: "transaction list" where
  "bad_date_txs =
     [\<lparr>symbol = ''AAA'', name = ''A'', quantity = 2, buy_date = Unparseable ''soon'',
       buy_price = 10\<rparr>]"

definition date_symbol_txs :: "transaction list" where
  "date_symbol_txs =
     [\<lparr>symbol = ''Date'', name = ''D'', quantity = 1, buy_date = Iso 1, buy_price = 10\<rparr>]"

section \<open>Properties\<close>

subsection \<open>Daily returns\<close>

lemma upt_filter_map_shift:
  "map f (filter P [0..<Suc n]) =
     (if P 0 then [f 0] else []) @ map (\<lambda>i. f (Suc i)) (filter (\<lambda>i. P (Suc i)) [0..<n])"
proof -
  have "[0..<Suc n] = 0 # map Suc [0..<n]"
    by (simp add: upt_conv_Cons map_Suc_upt del: upt_Suc)
  then show ?thesis
    by (simp add: filter_map comp_def del: upt_Suc)
qed

lemma daily_returns_unfold:
  "daily_returns vs =
     map (\<lambda>i. (vs ! (i + 1) - vs ! i) / vs ! i) (filter (\<lambda>i. vs ! i > 0) [0..<length vs - 1])"
  by (cases "length vs > 1") (auto simp: daily_returns_def valid_indices_def Let_def)

lemma daily_returns_Cons:
  "daily_returns (a # b # vs) =
     (if a > 0 then [(b - a) / a] else []) @ daily_returns (b # vs)"
  unfolding daily_returns_unfold
  using upt_filter_map_shift [of "\<lambda>i. ((a # b # vs) ! (i + 1) - (a # b # vs) ! i) / (a # b # vs) ! i"
      "\<lambda>i. (a # b # vs) ! i > 0" "length vs"]
  by simp

text \<open>
  Claim C8. For every total-value series \<open>V\<close>, the daily-return array holds
  \<open>(V[i] - V[i-1]) / V[i-1]\<close> exactly for the consecutive pairs with \<open>V[i-1] > 0\<close>, in
  index order; a pair with \<open>V[i-1] \<le> 0\<close> contributes no entry (no division, no zero).
  The array computed by the vectorised code equals the pair-by-pair walk, and it has
  one entry per position whose previous value is positive.
\<close>

theorem daily_returns_pairs:
  "daily_returns V = pairwise_returns V \<and>
   length (daily_returns V) = length (filter (\<lambda>i. V ! i > 0) [0..<length V - 1])"
proof
  show "daily_returns V = pairwise_returns V"
  proof (induction V rule: pairwise_returns.induct)
    case (1 a b vs)
    then show ?case by (simp only: daily_returns_Cons pairwise_returns.simps)
  qed (simp_all add: daily_returns_def)
  show "length (daily_returns V) = length (filter (\<lambda>i. V ! i > 0) [0..<length V - 1])"
    by (simp add: daily_returns_unfold)
qed

subsection \<open>The value frame\<close>

lemmas eval_defs = calculate_portfolio_value_def aggregate_def date_range_def symbols_def
  fetch_all_def fetch_symbol_def value_on_date_def find_closest_trading_date_def
  set_column_def add_at_def row_of_def fadd_def fscale_def fillna_def reset_index_def
  minimal_frame_def table_feed_def price_requests_def get_stock_data_def Let_def

text \<open>
  The names of the columns. The frame starts with the total column and one column per
  symbol; the updates and \<^const>\<open>fillna\<close> keep the names, so \<^const>\<open>reset_index\<close> raises
  exactly when a symbol is named \<^verbatim>\<open>Date\<close>. The aggregation therefore fails exactly
  when a date does not parse or a symbol bears that name.
\<close>

lemma names_set_column: "fst ` set (set_column n nm v df) = insert nm (fst ` set df)"
  by (auto simp: set_column_def image_iff split: if_splits prod.splits) force+

lemma names_add_at: "fst ` set (add_at idx date nm v df) = fst ` set df"
  by (induction df) (auto simp: add_at_def)

lemma names_fillna: "fst ` set (fillna df) = fst ` set df"
  by (induction df) (auto simp: fillna_def)

lemma names_value_on_date:
  "symbol tx \<in> (fst ` set df) \<Longrightarrow>
   (fst ` set (value_on_date idx stock_df tx buy df date)) = (fst ` set df)"
  by (simp add: value_on_date_def Let_def names_add_at split: option.splits)

lemma names_foldl_value_on_date:
  "symbol tx \<in> (fst ` set df) \<Longrightarrow>
   (fst ` set (foldl (value_on_date idx stock_df tx buy) df ds)) = (fst ` set df)"
  by (induction ds arbitrary: df) (simp_all add: names_value_on_date)

lemma names_value_transactions:
  "symbol ` set txs \<subseteq> (fst ` set df) \<Longrightarrow> value_transactions idx sd txs df = Inr df' \<Longrightarrow>
   (fst ` set df') = (fst ` set df)"
proof (induction txs arbitrary: df)
  case Nil
  then show ?case by simp
next
  case (Cons tx txs)
  from Cons.prems(1) have tx: "symbol tx \<in> (fst ` set df)"
    and rest: "symbol ` set txs \<subseteq> (fst ` set df)" by auto
  show ?case
  proof (cases "buy_date tx")
    case (Unparseable s)
    with Cons.prems(2) show ?thesis by simp
  next
    case (Iso buy)
    show ?thesis
    proof (cases "sd (symbol tx)")
      case None
      with Iso Cons.prems(2) have "value_transactions idx sd txs df = Inr df'" by simp
      with rest show ?thesis by (rule Cons.IH)
    next
      case (Some stock_df)
      show ?thesis
      proof (cases "stock_df = []")
        case True
        with Iso Some Cons.prems(2) have "value_transactions idx sd txs df = Inr df'" by simp
        with rest show ?thesis by (rule Cons.IH)
      next
        case False
        let ?df = "foldl (value_on_date idx stock_df tx buy) df idx"
        have n: "(fst ` set ?df) = (fst ` set df)"
          using tx by (rule names_foldl_value_on_date)
        have "value_transactions idx sd txs ?df = Inr df'"
          using Iso Some False Cons.prems(2) by simp
        moreover from rest n have "symbol ` set txs \<subseteq> (fst ` set ?df)" by simp
        ultimately have "(fst ` set df') = (fst ` set ?df)" by (rule Cons.IH [rotated])
        with n show ?thesis by simp
      qed
    qed
  qed
qed

lemma names_initial:
  "(fst ` set (foldl (\<lambda>df s. set_column n s v df) df0 syms)) = (fst ` set df0) \<union> set syms"
  by (induction syms arbitrary: df0) (auto simp: names_set_column)

lemma value_transactions_fails:
  "(\<exists>err. value_transactions idx sd txs pv = Inl err) \<longleftrightarrow> (\<exists>tx \<in> set txs. \<not> parses (buy_date tx))"
  by (induction idx sd txs pv rule: value_transactions.induct)
     (auto simp: parses_def split: date_str.splits option.splits)

lemma aggregate_fails:
  "(\<exists>err. aggregate yf transactions start_date end_date = Inl err) \<longleftrightarrow>
     \<not> parses start_date \<or> \<not> parses end_date \<or>
     (\<exists>tx \<in> set transactions. \<not> parses (buy_date tx)) \<or>
     (\<exists>tx \<in> set transactions. symbol tx = ''Date'')"
proof (cases start_date)
  case (Unparseable s)
  then show ?thesis by (simp add: aggregate_def date_range_def parses_def)
next
  case s: (Iso s)
  show ?thesis
  proof (cases end_date)
    case (Unparseable e)
    with s show ?thesis by (simp add: aggregate_def date_range_def parses_def)
  next
    case e: (Iso e)
    let ?idx = "[s..e]"
    let ?pv0 = "foldl (\<lambda>df s. set_column (length ?idx) s (Fin 0) df)
                  [(''TotalValue'', replicate (length ?idx) (Fin 0))] (symbols transactions)"
    let ?sd = "fst (fetch_all yf start_date end_date (symbols transactions))"
    have names0: "(fst ` set ?pv0) = insert ''TotalValue'' (symbol ` set transactions)"
      by (simp add: names_initial symbols_def)
    show ?thesis
    proof (cases "value_transactions ?idx ?sd transactions ?pv0")
      case (Inl err)
      with value_transactions_fails [of ?idx ?sd transactions ?pv0]
      have "\<exists>tx \<in> set transactions. \<not> parses (buy_date tx)" by auto
      moreover from Inl s e have "\<exists>err. aggregate yf transactions start_date end_date = Inl err"
        by (simp add: aggregate_def date_range_def Let_def)
      ultimately show ?thesis by blast
    next
      case (Inr pv)
      with value_transactions_fails [of ?idx ?sd transactions ?pv0]
      have ok: "\<not> (\<exists>tx \<in> set transactions. \<not> parses (buy_date tx))" by auto
      from names0 have "symbol ` set transactions \<subseteq> (fst ` set ?pv0)" by auto
      from names_value_transactions [OF this Inr] names0
      have "(fst ` set pv) = insert ''TotalValue'' (symbol ` set transactions)" by simp
      then have "''Date'' \<in> (fst ` set (fillna pv)) \<longleftrightarrow>
          (\<exists>tx \<in> set transactions. symbol tx = ''Date'')"
        by (simp add: names_fillna image_iff) metis
      moreover from Inr s e have "aggregate yf transactions start_date end_date =
          reset_index ?idx (fillna pv)"
        by (simp add: aggregate_def date_range_def Let_def)
      ultimately show ?thesis using ok s e
        by (auto simp: reset_index_def parses_def)
    qed
  qed
qed

text \<open>
  Claim C1, at a NaN close. The claim says that on every row of a returned frame the
  total equals the sum of the symbol columns. Lines 85-89 add each value to its symbol
  cell and to the total cell. With 2 shares of AAA at a NaN close and 3 shares of BBB at a close of 6 on the
  same day, the cell of AAA and the total become NaN, the total stays NaN when 18 is
  added for BBB, and \<^verbatim>\<open>fillna(0)\<close> then puts both to zero: the returned row has a
  total of 0 beside a BBB column of 18. With a close of 10 for AAA the total is 38, the
  sum of 20 and 18.
\<close>

theorem nan_close_breaks_total:
  "calculate_portfolio_value nan_close_feed two_symbol_txs (Iso 1) (Iso 1) =
     [(''Date'', [DateCell (Iso 1)]), (''TotalValue'', [Num (Fin 0)]),
      (''AAA'', [Num (Fin 0)]), (''BBB'', [Num (Fin 18)])] \<and>
   calculate_portfolio_value two_symbol_feed two_symbol_txs (Iso 1) (Iso 1) =
     [(''Date'', [DateCell (Iso 1)]), (''TotalValue'', [Num (Fin 38)]),
      (''AAA'', [Num (Fin 20)]), (''BBB'', [Num (Fin 18)])]"
  by (simp add: eval_defs nan_close_feed_def two_symbol_feed_def two_symbol_txs_def upto.simps)

text \<open>
  Claim C2, at a symbol named Date. The claim says that a failed aggregation gives a
  one-row frame whose date is the start date. With a transaction of the symbol
  \<^verbatim>\<open>Date\<close> and dates that parse, the symbol column takes the name of the index,
  \<^verbatim>\<open>reset_index\<close> raises, and the handler then overwrites the date column of its frame
  with the zero of the symbol: the returned frame holds 0 under \<^verbatim>\<open>Date\<close>, and not the
  start date. With another symbol and a start date that does not parse, the frame is the
  one the claim describes. In both cases the exception is caught and a frame comes back.
\<close>

theorem date_symbol_breaks_fallback:
  "aggregate two_symbol_feed date_symbol_txs (Iso 1) (Iso 2) = Inl ValueError \<and>
   calculate_portfolio_value two_symbol_feed date_symbol_txs (Iso 1) (Iso 2) =
     [(''Date'', [Num (Fin 0)]), (''TotalValue'', [Num (Fin 0)])] \<and>
   calculate_portfolio_value two_symbol_feed bad_date_txs (Unparseable ''tomorrow'') (Iso 2) =
     [(''Date'', [DateCell (Unparseable ''tomorrow'')]), (''TotalValue'', [Num (Fin 0)]),
      (''AAA'', [Num (Fin 0)])]"
  by (simp add: eval_defs two_symbol_feed_def date_symbol_txs_def bad_date_txs_def upto.simps)

lemma fetch_all_requests:
  "snd (foldl (fetch_symbol yf s e) st syms) = snd st @ map (\<lambda>x. (x, s, e)) syms"
  by (induction syms arbitrary: st) (auto simp: fetch_symbol_def split: fetched.splits)

lemma price_requests_as_given:
  "parses start_date \<Longrightarrow> parses end_date \<Longrightarrow>
   price_requests yf transactions start_date end_date =
     map (\<lambda>x. (x, start_date, end_date)) (symbols transactions)"
  by (auto simp: price_requests_def date_range_def parses_def fetch_all_def fetch_all_requests
      split: date_str.splits)

text \<open>
  Claim C3, at a start date on a weekend. The claim asks for one request per symbol
  over the range from five days before the start date to the end date.
  \<^const>\<open>calculate_portfolio_value\<close> sends one request per symbol, but over the range as
  given (\<open>price_requests_as_given\<close>), while \<^const>\<open>get_stock_data\<close> applies the
  lookback. With a start on Saturday (day 6) the provider has nothing to return, so the
  position is valued at zero although Friday's close is known.
\<close>

theorem weekend_start_without_lookback:
  "price_requests friday_feed saturday_txs (Iso 6) (Iso 7) = [(''AAA'', Iso 6, Iso 7)] \<and>
   calculate_portfolio_value friday_feed saturday_txs (Iso 6) (Iso 7) =
     [(''Date'', [DateCell (Iso 6), DateCell (Iso 7)]),
      (''TotalValue'', [Num (Fin 0), Num (Fin 0)]),
      (''AAA'', [Num (Fin 0), Num (Fin 0)])] \<and>
   get_stock_data friday_feed ''AAA'' (Iso 6) (Iso 7) =
     ([(5, Fin 100)], [(''AAA'', Iso 1, Iso 7)])"
  by (simp add: eval_defs friday_feed_def saturday_txs_def upto.simps)


subsection \<open>Drawdown episodes\<close>

lemmas dd_defs = detailed_drawdown_periods_def close_open_drawdown_def drawdown_scan_def
  dd_step_def depth_between_def Let_def


text \<open>
  Claim C5, at a drawdown that ends in a new peak. The series falls 10 percent below its
  peak at position 1, which opens an episode, and rises above the old peak at position
  2, where the drawdown is back to zero. The open episode is dropped there without
  being recorded: no episode is reported. When the series instead returns to the peak
  exactly, or stays down to the end, the episode is recorded with its start, its end
  and its depth, as the claim says.
\<close>

theorem new_peak_drops_open_episode:
  "detailed_drawdown_periods [100, 90, 110, 110, 110] = [] \<and>
   detailed_drawdown_periods [100, 90, 100, 100, 100] =
     [\<lparr>period_start = 1, period_end = 2, period_depth = 1 / 10\<rparr>] \<and>
   detailed_drawdown_periods [100, 90, 90, 90, 90] =
     [\<lparr>period_start = 1, period_end = 4, period_depth = 1 / 10\<rparr>]"
  by (simp add: dd_defs upt_conv_Cons)

subsection \<open>Names written by the analysers\<close>

lemma map_of_append_None:
  "map_of (xs @ ys) k = None \<longleftrightarrow> map_of xs k = None \<and> map_of ys k = None"
  by (auto simp: map_of_eq_None_iff)

lemma recovery_calmar:
  "map_of (recovery_entries vs dates s e a b) (K ''calmar_ratio'') = None"
  by (simp add: recovery_entries_def split: option.splits date_cell.splits)

lemma recovery_W:
  "map_of (recovery_entries vs dates s e a b) (W w n) = None"
  by (simp add: recovery_entries_def split: option.splits date_cell.splits)

lemmas key_eq = key.inject key.distinct list.inject list.distinct char.inject simp_thms
  if_True if_False map_of.simps fst_conv snd_conv fun_upd_apply option.simps

lemma drawdown_metrics_calmar:
  "map_of (calculate_drawdown_metrics vs dates) (K ''calmar_ratio'') = None"
  unfolding calculate_drawdown_metrics_def Let_def
  by (simp only: key_eq map_of_append_None recovery_calmar split: if_split date_cell.split)

lemma drawdown_metrics_W:
  "map_of (calculate_drawdown_metrics vs dates) (W w n) = None"
  unfolding calculate_drawdown_metrics_def Let_def
  by (simp only: key_eq map_of_append_None recovery_W split: if_split date_cell.split)

lemma recovery_total:
  "map_of (recovery_entries vs dates s e a b) (K ''total_return'') = None"
  "map_of (recovery_entries vs dates s e a b) (K ''annualized_return'') = None"
  by (simp_all add: recovery_entries_def split: option.splits date_cell.splits)

lemma drawdown_metrics_total:
  "map_of (calculate_drawdown_metrics vs dates) (K ''total_return'') = None"
  "map_of (calculate_drawdown_metrics vs dates) (K ''annualized_return'') = None"
  unfolding calculate_drawdown_metrics_def Let_def
  by (simp_all only: key_eq map_of_append_None recovery_total split: if_split date_cell.split)

lemma enhanced_W:
  "map_of (calculate_enhanced_indicators gini rows rets initial final fd ld txs) (W w n) = None"
  unfolding calculate_enhanced_indicators_def enhanced_risk_entries_def
    enhanced_weight_entries_def Let_def
  by (simp only: key_eq map_of_append_None split: if_split)

lemma win_loss_untouched:
  "map_of (calculate_win_loss_metrics rets) (W w n) = None"
  "map_of (calculate_win_loss_metrics rets) (K ''total_return'') = None"
  "map_of (calculate_win_loss_metrics rets) (K ''annualized_return'') = None"
  "map_of (calculate_win_loss_metrics rets) (K ''calmar_ratio'') = None"
  unfolding calculate_win_loss_metrics_def Let_def
  by (simp_all only: key_eq)

lemma map_add_right_None: "m2 k = None \<Longrightarrow> (m1 ++ m2) k = m1 k"
  by (simp add: map_add_def)

lemma map_add_right_Some: "m2 k = Some v \<Longrightarrow> (m1 ++ m2) k = Some v"
  by (simp add: map_add_def)

lemma drawdown_entries_untouched:
  "drawdown_entries tv dates ind (K ''calmar_ratio'') = ind (K ''calmar_ratio'')"
  "drawdown_entries tv dates ind (K ''total_return'') = ind (K ''total_return'')"
  "drawdown_entries tv dates ind (K ''annualized_return'') = ind (K ''annualized_return'')"
  "drawdown_entries tv dates ind (W w n) = ind (W w n)"
  by (simp_all add: drawdown_entries_def map_add_right_None drawdown_metrics_calmar
      drawdown_metrics_W drawdown_metrics_total)

lemma portfolio_entries_untouched:
  "k \<notin> {K ''stock_weights'', K ''gini_concentration'', K ''entropy_diversity'',
          K ''max_contributor''} \<Longrightarrow>
   portfolio_entries rows final ind k = ind k"
  by (simp add: portfolio_entries_def Let_def)

lemma rolling_entries_other:
  assumes "rolling_entries rets w ind = Inr ind'"
  shows "ind' (K s) = ind (K s)" and "w' \<noteq> w \<Longrightarrow> ind' (W w' n) = ind (W w' n)"
  using assms
  by (auto simp: rolling_entries_def calculate_rolling_metrics_def Let_def map_add_def
      split: if_splits sum.splits)

lemma rolling_entries_same:
  assumes "rolling_entries rets w ind = Inr ind'"
  shows "ind' (W w ''rolling_analysis'') = ind (W w ''rolling_analysis'')"
    and "ind' (W w ''rolling_return'') =
          (if length rets \<ge> w
           then Some (Percent (last (map np_mean (rolling_windows w rets)) * 252 * 100))
           else ind (W w ''rolling_return''))"
  using assms
  by (auto simp: rolling_entries_def calculate_rolling_metrics_def Let_def map_add_def
      split: if_splits sum.splits)

lemma rolling_entries_fails:
  "(\<exists>e. rolling_entries rets w ind = Inl e) \<longleftrightarrow>
   length rets \<ge> w \<and> filter (\<lambda>s. s > 0) (map sample_std (rolling_windows w rets)) = []"
  by (auto simp: rolling_entries_def calculate_rolling_metrics_def Let_def
      split: if_splits sum.splits)

subsection \<open>The shape of the indicator report\<close>

lemma enhanced_total:
  "map_of (calculate_enhanced_indicators gini rows rets initial final fd ld txs)
     (K ''total_return'') = None"
  "map_of (calculate_enhanced_indicators gini rows rets initial final fd ld txs)
     (K ''annualized_return'') = None"
  unfolding calculate_enhanced_indicators_def enhanced_risk_entries_def
    enhanced_weight_entries_def Let_def
  by (simp_all only: key_eq map_of_append_None split: if_split)

lemma risk_entries_total:
  "risk_entries gini rows txs rets tv initial final fd ld ind (K ''total_return'') =
     ind (K ''total_return'')"
  "risk_entries gini rows txs rets tv initial final fd ld ind (K ''annualized_return'') =
     ind (K ''annualized_return'')"
  by (simp_all add: risk_entries_def Let_def map_add_def win_loss_untouched enhanced_total
      split: option.splits)

lemma risk_entries_calmar:
  "risk_entries gini rows txs rets tv initial final fd ld ind (K ''calmar_ratio'') =
     Some (calmar_entry (calculate_max_drawdown tv * 100)
             (annualized_return_pct (ld - fd) initial final))"
  by (simp add: risk_entries_def Let_def map_add_def win_loss_untouched)

lemma risk_entries_rolling_return:
  "risk_entries gini rows txs rets tv initial final fd ld ind (W w ''rolling_return'') =
     ind (W w ''rolling_return'')"
  by (simp add: risk_entries_def Let_def map_add_def win_loss_untouched enhanced_W
      split: option.splits)

lemma risk_entries_rolling_analysis:
  "risk_entries gini rows txs rets tv initial final fd ld ind (W w ''rolling_analysis'') =
     (if length rets \<ge> 60 \<and> (w = 20 \<or> w = 60)
      then Some (Group (calculate_rolling_detailed_metrics rets w))
      else ind (W w ''rolling_analysis''))"
  by (auto simp: risk_entries_def Let_def map_add_def win_loss_untouched enhanced_W
      split: option.splits)


lemma no_risk_entries_lookup:
  "no_risk_entries ind (K ''total_return'') = ind (K ''total_return'')"
  "no_risk_entries ind (K ''annualized_return'') = ind (K ''annualized_return'')"
  "no_risk_entries ind (K ''calmar_ratio'') = Some (Text ''N/A'')"
  "no_risk_entries ind (W w n) = ind (W w n)"
  by (simp_all add: no_risk_entries_def map_add_def)

lemma to_datetime_ends:
  assumes "to_datetime (map Date rows) = Inr dates" and "rows \<noteq> []"
  shows "dates ! 0 = day_of (Date (hd rows))"
    and "dates ! (length dates - 1) = day_of (Date (last rows))"
    and "length dates = length rows"
proof -
  from assms(1) have d: "dates = map day_of (map Date rows)"
    by (simp add: to_datetime_def split: if_splits)
  from d assms(2) show "dates ! 0 = day_of (Date (hd rows))"
    by (simp add: hd_conv_nth)
  from d assms(2) show "dates ! (length dates - 1) = day_of (Date (last rows))"
    by (simp add: last_conv_nth)
  from d show "length dates = length rows" by simp
qed

lemma calculate_indicators_cases:
  assumes len: "length rows \<ge> 2"
    and ret: "calculate_indicators gini rows txs = Inr rep"
  obtains (no_returns)
      "daily_returns (map TotalValue rows) = []"
      "rep = portfolio_entries rows (final_value_of (map TotalValue rows))
               (no_risk_entries
                  [K ''total_return'' \<mapsto>
                     total_return_entry (initial_investment txs)
                       (final_value_of (map TotalValue rows)),
                   K ''annualized_return'' \<mapsto>
                     annualized_return_entry (elapsed_days rows) (initial_investment txs)
                       (final_value_of (map TotalValue rows))])"
  | (returns) dates i2 i3 where
      "daily_returns (map TotalValue rows) \<noteq> []"
      "rolling_entries (daily_returns (map TotalValue rows)) 20
         (risk_entries gini rows txs (daily_returns (map TotalValue rows))
            (map TotalValue rows) (initial_investment txs)
            (final_value_of (map TotalValue rows))
            (day_of (Date (hd rows))) (day_of (Date (last rows)))
            [K ''total_return'' \<mapsto>
               total_return_entry (initial_investment txs)
                 (final_value_of (map TotalValue rows)),
             K ''annualized_return'' \<mapsto>
               annualized_return_entry (elapsed_days rows) (initial_investment txs)
                 (final_value_of (map TotalValue rows))]) = Inr i2"
      "rolling_entries (daily_returns (map TotalValue rows)) 60 i2 = Inr i3"
      "rep = portfolio_entries rows (final_value_of (map TotalValue rows))
               (drawdown_entries (map TotalValue rows) dates i3)"
proof -
  from len have ne: "rows \<noteq> []" by auto
  from len ret obtain dates where dt: "to_datetime (map Date rows) = Inr dates"
    by (auto simp: calculate_indicators_def split: sum.splits)
  note ends = to_datetime_ends [OF dt ne]
  show thesis
  proof (cases "daily_returns (map TotalValue rows) = []")
    case True
    with len ret dt ends have
      "rep = portfolio_entries rows (final_value_of (map TotalValue rows))
               (no_risk_entries
                  [K ''total_return'' \<mapsto>
                     total_return_entry (initial_investment txs)
                       (final_value_of (map TotalValue rows)),
                   K ''annualized_return'' \<mapsto>
                     annualized_return_entry (elapsed_days rows) (initial_investment txs)
                       (final_value_of (map TotalValue rows))])"
      by (simp add: calculate_indicators_def Let_def elapsed_days_def)
    with True show ?thesis by (rule no_returns)
  next
    case False
    with len ret dt ends obtain i2 i3 where
      "rolling_entries (daily_returns (map TotalValue rows)) 20
         (risk_entries gini rows txs (daily_returns (map TotalValue rows))
            (map TotalValue rows) (initial_investment txs)
            (final_value_of (map TotalValue rows))
            (day_of (Date (hd rows))) (day_of (Date (last rows)))
            [K ''total_return'' \<mapsto>
               total_return_entry (initial_investment txs)
                 (final_value_of (map TotalValue rows)),
             K ''annualized_return'' \<mapsto>
               annualized_return_entry (elapsed_days rows) (initial_investment txs)
                 (final_value_of (map TotalValue rows))]) = Inr i2"
      "rolling_entries (daily_returns (map TotalValue rows)) 60 i2 = Inr i3"
      "rep = portfolio_entries rows (final_value_of (map TotalValue rows))
               (drawdown_entries (map TotalValue rows) dates i3)"
      by (auto simp: calculate_indicators_def Let_def elapsed_days_def split: sum.splits)
    with False show ?thesis by (rule returns)
  qed
qed

lemma report_returns:
  assumes "length rows \<ge> 2" and "calculate_indicators gini rows txs = Inr rep"
  shows "rep (K ''total_return'') =
           Some (total_return_entry (initial_investment txs) (final_value_of (map TotalValue rows)))"
    and "rep (K ''annualized_return'') =
           Some (annualized_return_entry (elapsed_days rows) (initial_investment txs)
                   (final_value_of (map TotalValue rows)))"
  using assms
proof (atomize (full), cases rule: calculate_indicators_cases)
  case no_returns
  then show "rep (K ''total_return'') =
           Some (total_return_entry (initial_investment txs) (final_value_of (map TotalValue rows))) \<and>
       rep (K ''annualized_return'') =
           Some (annualized_return_entry (elapsed_days rows) (initial_investment txs)
                   (final_value_of (map TotalValue rows)))"
    by (simp add: portfolio_entries_untouched no_risk_entries_lookup)
next
  case (returns dates i2 i3)
  from rolling_entries_other(1) [OF returns(3)] rolling_entries_other(1) [OF returns(2)]
  have "\<And>s. i3 (K s) = risk_entries gini rows txs (daily_returns (map TotalValue rows))
            (map TotalValue rows) (initial_investment txs)
            (final_value_of (map TotalValue rows))
            (day_of (Date (hd rows))) (day_of (Date (last rows)))
            [K ''total_return'' \<mapsto>
               total_return_entry (initial_investment txs)
                 (final_value_of (map TotalValue rows)),
             K ''annualized_return'' \<mapsto>
               annualized_return_entry (elapsed_days rows) (initial_investment txs)
                 (final_value_of (map TotalValue rows))] (K s)"
    by simp
  with returns(4) show "rep (K ''total_return'') =
           Some (total_return_entry (initial_investment txs) (final_value_of (map TotalValue rows))) \<and>
       rep (K ''annualized_return'') =
           Some (annualized_return_entry (elapsed_days rows) (initial_investment txs)
                   (final_value_of (map TotalValue rows)))"
    by (simp add: portfolio_entries_untouched drawdown_entries_untouched risk_entries_total)
qed


lemma report_calmar:
  assumes "length rows \<ge> 2" and "calculate_indicators gini rows txs = Inr rep"
  shows "rep (K ''calmar_ratio'') =
           Some (if daily_returns (map TotalValue rows) = [] then Text ''N/A''
                 else calmar_entry (calculate_max_drawdown (map TotalValue rows) * 100)
                        (annualized_return_pct (elapsed_days rows) (initial_investment txs)
                           (final_value_of (map TotalValue rows))))"
  using assms
proof (cases rule: calculate_indicators_cases)
  case no_returns
  then show ?thesis
    by (simp add: portfolio_entries_untouched no_risk_entries_lookup)
next
  case (returns dates i2 i3)
  from rolling_entries_other(1) [OF returns(3)] rolling_entries_other(1) [OF returns(2)]
  have "i3 (K ''calmar_ratio'') =
          Some (calmar_entry (calculate_max_drawdown (map TotalValue rows) * 100)
                  (annualized_return_pct (elapsed_days rows) (initial_investment txs)
                     (final_value_of (map TotalValue rows))))"
    by (simp add: risk_entries_calmar elapsed_days_def)
  with returns(1,4) show ?thesis
    by (simp add: portfolio_entries_untouched drawdown_entries_untouched)
qed

lemma report_rolling:
  assumes "length rows \<ge> 2" and "calculate_indicators gini rows txs = Inr rep"
  shows "rep (W w ''rolling_return'') =
           (if (w = 20 \<or> w = 60) \<and> length (daily_returns (map TotalValue rows)) \<ge> w
            then Some (Percent (last (map np_mean
                         (rolling_windows w (daily_returns (map TotalValue rows)))) * 252 * 100))
            else None)"
    and "rep (W w ''rolling_analysis'') =
           (if (w = 20 \<or> w = 60) \<and> length (daily_returns (map TotalValue rows)) \<ge> 60
            then Some (Group (calculate_rolling_detailed_metrics
                                (daily_returns (map TotalValue rows)) w))
            else None)"
  using assms
proof (atomize (full), cases rule: calculate_indicators_cases)
  case no_returns
  then show "rep (W w ''rolling_return'') =
           (if (w = 20 \<or> w = 60) \<and> length (daily_returns (map TotalValue rows)) \<ge> w
            then Some (Percent (last (map np_mean
                         (rolling_windows w (daily_returns (map TotalValue rows)))) * 252 * 100))
            else None) \<and>
        rep (W w ''rolling_analysis'') =
           (if (w = 20 \<or> w = 60) \<and> length (daily_returns (map TotalValue rows)) \<ge> 60
            then Some (Group (calculate_rolling_detailed_metrics
                                (daily_returns (map TotalValue rows)) w))
            else None)"
    by (auto simp: portfolio_entries_untouched no_risk_entries_lookup)
next
  case (returns dates i2 i3)
  note o3 = rolling_entries_other(2) [OF returns(3)]
    and o2 = rolling_entries_other(2) [OF returns(2)]
    and s3 = rolling_entries_same [OF returns(3)]
    and s2 = rolling_entries_same [OF returns(2)]
  have rep: "\<And>n. rep (W w n) = i3 (W w n)"
    using returns(4) by (simp add: portfolio_entries_untouched drawdown_entries_untouched)
  consider "w = 20" | "w = 60" | "w \<noteq> 20" "w \<noteq> 60" by blast
  then show "rep (W w ''rolling_return'') =
           (if (w = 20 \<or> w = 60) \<and> length (daily_returns (map TotalValue rows)) \<ge> w
            then Some (Percent (last (map np_mean
                         (rolling_windows w (daily_returns (map TotalValue rows)))) * 252 * 100))
            else None) \<and>
        rep (W w ''rolling_analysis'') =
           (if (w = 20 \<or> w = 60) \<and> length (daily_returns (map TotalValue rows)) \<ge> 60
            then Some (Group (calculate_rolling_detailed_metrics
                                (daily_returns (map TotalValue rows)) w))
            else None)"
  proof cases
    case 1
    with rep o3 [of 20] s2 show ?thesis
      by (simp add: risk_entries_rolling_return risk_entries_rolling_analysis)
  next
    case 2
    with rep o2 [of 60] s3 show ?thesis
      by (simp add: risk_entries_rolling_return risk_entries_rolling_analysis)
  next
    case 3
    with rep o3 [of w] o2 [of w] show ?thesis
      by (simp add: risk_entries_rolling_return risk_entries_rolling_analysis)
  qed
qed

lemma report_concentration:
  assumes "length rows \<ge> 2" and "calculate_indicators gini rows txs = Inr rep"
    and "final_value_of (map TotalValue rows) > 0" and "length (columns (last rows)) = 1"
  shows "rep (K ''gini_concentration'') = Some (Labelled 1 ''single investment'')"
    and "rep (K ''entropy_diversity'') = Some (Labelled 0 ''single investment'')"
  using assms(1,2)
proof (atomize (full), cases rule: calculate_indicators_cases)
  case no_returns
  with assms(3,4) show "rep (K ''gini_concentration'') = Some (Labelled 1 ''single investment'') \<and>
    rep (K ''entropy_diversity'') = Some (Labelled 0 ''single investment'')"
    by (auto simp: portfolio_entries_def Let_def)
next
  case (returns dates i2 i3)
  with assms(3,4) show "rep (K ''gini_concentration'') = Some (Labelled 1 ''single investment'') \<and>
    rep (K ''entropy_diversity'') = Some (Labelled 0 ''single investment'')"
    by (auto simp: portfolio_entries_def Let_def)
qed

lemma calculate_indicators_returns:
  assumes "length rows \<ge> 2" and "list_all parses (map Date rows)"
  shows "(\<exists>rep. calculate_indicators gini rows txs = Inr rep) \<longleftrightarrow>
         \<not> degenerate_window (daily_returns (map TotalValue rows)) 20 \<and>
         \<not> degenerate_window (daily_returns (map TotalValue rows)) 60"
proof (cases "daily_returns (map TotalValue rows) = []")
  case True
  with assms show ?thesis
    by (simp add: calculate_indicators_def to_datetime_def Let_def degenerate_window_def)
next
  case False
  define rets where "rets = daily_returns (map TotalValue rows)"
  define start where "start = risk_entries gini rows txs rets (map TotalValue rows)
     (initial_investment txs) (final_value_of (map TotalValue rows))
     (map day_of (map Date rows) ! 0)
     (map day_of (map Date rows) ! (length (map day_of (map Date rows)) - 1))
     [K ''total_return'' \<mapsto>
        total_return_entry (initial_investment txs) (final_value_of (map TotalValue rows)),
      K ''annualized_return'' \<mapsto>
        annualized_return_entry
          (map day_of (map Date rows) ! (length (map day_of (map Date rows)) - 1) -
           map day_of (map Date rows) ! 0)
          (initial_investment txs) (final_value_of (map TotalValue rows))]"
  have fails: "\<And>w ind. (\<exists>e. rolling_entries rets w ind = Inl e) \<longleftrightarrow> degenerate_window rets w"
    unfolding degenerate_window_def by (rule rolling_entries_fails)
  have ci: "calculate_indicators gini rows txs =
      (case rolling_entries rets 20 start of
         Inl e \<Rightarrow> Inl e
       | Inr i2 \<Rightarrow>
           (case rolling_entries rets 60 i2 of
              Inl e \<Rightarrow> Inl e
            | Inr i3 \<Rightarrow>
                Inr (portfolio_entries rows (final_value_of (map TotalValue rows))
                       (drawdown_entries (map TotalValue rows)
                          (map day_of (map Date rows)) i3))))"
    unfolding rets_def start_def using False assms
    by (simp add: calculate_indicators_def to_datetime_def Let_def del: map_map nth_map)
  show ?thesis
  proof (cases "rolling_entries rets 20 start")
    case (Inl e)
    with fails [of 20 start] ci show ?thesis by (auto simp: rets_def)
  next
    case i2: (Inr i2)
    with fails [of 20 start] have n20: "\<not> degenerate_window rets 20" by auto
    show ?thesis
    proof (cases "rolling_entries rets 60 i2")
      case (Inl e)
      with fails [of 60 i2] ci i2 show ?thesis by (auto simp: rets_def)
    next
      case (Inr i3)
      with fails [of 60 i2] have "\<not> degenerate_window rets 60" by auto
      with n20 ci i2 Inr show ?thesis by (simp add: rets_def)
    qed
  qed
qed

subsection \<open>Sample frames\<close>

lemma frame_of_facts:
  "map TotalValue (frame_of ps) = map snd ps"
  "map Date (frame_of ps) = map (\<lambda>p. Iso (fst p)) ps"
  "length (frame_of ps) = length ps"
  by (simp_all add: frame_of_def case_prod_beta comp_def)

lemma frame_of_parses: "list_all parses (map Date (frame_of ps))"
  by (simp add: frame_of_facts list_all_iff parses_def)

lemma frame_of_elapsed:
  "ps \<noteq> [] \<Longrightarrow> elapsed_days (frame_of ps) = fst (last ps) - fst (hd ps)"
  by (simp add: elapsed_days_def frame_of_def last_map hd_map day_of_def case_prod_beta)

lemma frame_of_last:
  "ps \<noteq> [] \<Longrightarrow> TotalValue (last (frame_of ps)) = snd (last ps)"
  "ps \<noteq> [] \<Longrightarrow> columns (last (frame_of ps)) = [(''AAA'', snd (last ps))]"
  by (simp_all add: frame_of_def last_map case_prod_beta)

lemma length_daily_returns: "length (daily_returns vs) \<le> length vs - 1"
proof -
  have "length (filter (\<lambda>i. vs ! i > 0) [0..<length vs - 1]) \<le> length [0..<length vs - 1]"
    by (rule length_filter_le)
  then show ?thesis by (simp add: daily_returns_unfold)
qed

lemma short_series_returns:
  assumes "length ps \<ge> 2" "length ps \<le> 20"
  shows "\<exists>rep. calculate_indicators gini (frame_of ps) txs = Inr rep"
proof -
  have "length (daily_returns (map snd ps)) < 20"
    using assms length_daily_returns [of "map snd ps"] by simp
  then have "\<not> degenerate_window (daily_returns (map snd ps)) 20"
    "\<not> degenerate_window (daily_returns (map snd ps)) 60"
    by (simp_all add: degenerate_window_def)
  with calculate_indicators_returns [of "frame_of ps" gini txs] assms frame_of_parses [of ps]
  show ?thesis by (simp add: frame_of_facts)
qed


lemma initial_investment_sum:
  "sum_list (map (\<lambda>tx. quantity tx * buy_price tx) txs) > 0 \<Longrightarrow>
   initial_investment txs = sum_list (map (\<lambda>tx. quantity tx * buy_price tx) txs)"
  by (simp add: initial_investment_def Let_def)

lemma final_value_of_last:
  "rows \<noteq> [] \<Longrightarrow>
   final_value_of (map TotalValue rows) =
     (if TotalValue (last rows) < 0 then 0 else TotalValue (last rows))"
  by (simp add: final_value_of_def last_map)

subsection \<open>The annualised return\<close>

text \<open>
  The claim C4 as stated fails where the final value is zero: with 365 elapsed days, an
  initial investment of 100 and a final value of 0, the pro-rated formula of the claim
  gives -100 percent, while the report holds the text for "not available", because the
  code also requires a positive final value.
\<close>

theorem annualized_return_counterexample:
  "elapsed_days (frame_of [(0, 100), (365, 0)]) = 365 \<and>
   initial_investment one_share = 100 \<and>
   TotalValue (last (frame_of [(0, 100), (365, 0)])) = 0 \<and>
   report_entry (calculate_indicators sample_gini (frame_of [(0, 100), (365, 0)]) one_share)
     (K ''annualized_return'') = Some (Text ''N/A'') \<and>
   Some (Text ''N/A'') \<noteq> Some (Percent ((0 - 100) / 100 * (365 / 365) * 100))"
proof -
  obtain rep where
    r: "calculate_indicators sample_gini (frame_of [(0, 100), (365, 0)]) one_share = Inr rep"
    using short_series_returns [of "[(0, 100), (365, 0)]" sample_gini one_share] by auto
  have "rep (K ''annualized_return'') = Some (Text ''N/A'')"
    using report_returns(2) [OF _ r]
    by (simp add: frame_of_facts frame_of_elapsed annualized_return_entry_def
        final_value_of_def)
  with r show ?thesis
    by (simp add: report_entry_def frame_of_elapsed frame_of_last one_share_def
        initial_investment_def)
qed

text \<open>
  Claim C4, amended. For every frame with at least two rows and more than zero elapsed
  days, every transaction list with a positive sum of costs, and every report that
  \<^const>\<open>calculate_indicators\<close> returns for them: when the final value is positive, the
  annualised return is, in percent, \<open>(final / initial) ^ (1 / years) - 1\<close> with
  \<open>years = days / 365\<close> if the final value exceeds the initial investment, and
  \<open>(final - initial) / initial * (365 / days)\<close> otherwise; when the final value is not
  positive, the entry is the text for "not available".
\<close>

theorem annualized_return_by_branch:
  assumes "length rows \<ge> 2"
    and "calculate_indicators gini rows txs = Inr rep"
    and "elapsed_days rows > 0"
    and "sum_list (map (\<lambda>tx. quantity tx * buy_price tx) txs) > 0"
  shows "rep (K ''annualized_return'') =
     Some (let days = real_of_int (elapsed_days rows);
               years = days / 365;
               initial = sum_list (map (\<lambda>tx. quantity tx * buy_price tx) txs);
               final = TotalValue (last rows)
           in if final \<le> 0 then Text ''N/A''
              else if final > initial then Percent (((final / initial) powr (1 / years) - 1) * 100)
              else Percent ((final - initial) / initial * (365 / days) * 100))"
proof -
  from assms(1) have ne: "rows \<noteq> []" by auto
  from report_returns(2) [OF assms(1,2)] assms(3,4) show ?thesis
    by (simp add: initial_investment_sum final_value_of_last [OF ne] annualized_return_entry_def
        annualized_return_pct_def Let_def)
qed

theorem annualized_return_by_branch_witness:
  "report_entry (calculate_indicators sample_gini (frame_of [(0, 100), (365, 121)]) one_share)
     (K ''annualized_return'') = Some (Percent 21) \<and>
   report_entry (calculate_indicators sample_gini (frame_of [(0, 100), (365, 90)]) one_share)
     (K ''annualized_return'') = Some (Percent (- 10)) \<and>
   report_entry (calculate_indicators sample_gini (frame_of [(0, 100), (365, 0)]) one_share)
     (K ''annualized_return'') = Some (Text ''N/A'')"
proof -
  obtain r1 where
    r1: "calculate_indicators sample_gini (frame_of [(0, 100), (365, 121)]) one_share = Inr r1"
    using short_series_returns [of "[(0, 100), (365, 121)]" sample_gini one_share] by auto
  obtain r2 where
    r2: "calculate_indicators sample_gini (frame_of [(0, 100), (365, 90)]) one_share = Inr r2"
    using short_series_returns [of "[(0, 100), (365, 90)]" sample_gini one_share] by auto
  obtain r3 where
    r3: "calculate_indicators sample_gini (frame_of [(0, 100), (365, 0)]) one_share = Inr r3"
    using short_series_returns [of "[(0, 100), (365, 0)]" sample_gini one_share] by auto
  have "r1 (K ''annualized_return'') = Some (Percent 21)"
    using annualized_return_by_branch [OF _ r1]
    by (simp add: frame_of_facts frame_of_elapsed frame_of_last one_share_def)
  moreover have "r2 (K ''annualized_return'') = Some (Percent (- 10))"
    using annualized_return_by_branch [OF _ r2]
    by (simp add: frame_of_facts frame_of_elapsed frame_of_last one_share_def)
  moreover have "r3 (K ''annualized_return'') = Some (Text ''N/A'')"
    using annualized_return_by_branch [OF _ r3]
    by (simp add: frame_of_facts frame_of_elapsed frame_of_last one_share_def)
  ultimately show ?thesis using r1 r2 r3 by (simp add: report_entry_def)
qed

lemma max_drawdown_samples:
  "calculate_max_drawdown [100, 50, 100] = 1 / 2"
  "calculate_max_drawdown [100, 90] = 1 / 10"
  "calculate_max_drawdown [100, 121] = 0"
  by (simp_all add: calculate_max_drawdown_def max_drawdown_step_def)

lemma daily_returns_samples:
  "daily_returns [100, 50, 100] = [- (1 / 2), 1]"
  "daily_returns [100, 90] = [- (1 / 10)]"
  "daily_returns [100, 121] = [21 / 100]"
  "daily_returns [100, 110] = [1 / 10]"
  by (simp_all add: daily_returns_Cons) (simp_all add: daily_returns_def)

subsection \<open>The Calmar ratio\<close>

text \<open>
  The claim C7 as stated fails in its "only if": the series 100, 50, 100 has a maximum
  drawdown of one half, yet with an initial investment of 100 the annualised return is
  zero and the Calmar ratio is reported as "not available".
\<close>

theorem calmar_ratio_counterexample:
  "calculate_max_drawdown (map TotalValue (frame_of [(0, 100), (1, 50), (2, 100)])) = 1 / 2 \<and>
   report_entry
     (calculate_indicators sample_gini (frame_of [(0, 100), (1, 50), (2, 100)]) one_share)
     (K ''calmar_ratio'') = Some (Text ''N/A'')"
proof -
  obtain rep where
    r: "calculate_indicators sample_gini (frame_of [(0, 100), (1, 50), (2, 100)]) one_share =
          Inr rep"
    using short_series_returns [of "[(0, 100), (1, 50), (2, 100)]" sample_gini one_share]
    by auto
  have "rep (K ''calmar_ratio'') = Some (Text ''N/A'')"
    using report_calmar [OF _ r]
    by (simp add: frame_of_facts frame_of_elapsed daily_returns_samples max_drawdown_samples
        calmar_entry_def annualized_return_pct_def final_value_of_def initial_investment_def
        one_share_def)
  with r show ?thesis
    by (simp add: report_entry_def frame_of_facts max_drawdown_samples)
qed

text \<open>
  Claim C7, amended. For every frame with at least two rows and every report that
  \<^const>\<open>calculate_indicators\<close> returns for it, the Calmar ratio is the absolute value of the
  annualised return over the maximum drawdown (both in percent) when there is a daily
  return, the maximum drawdown is positive and the annualised return is not zero; it is
  the text for "not available" exactly otherwise, that is when there is no daily return,
  when the maximum drawdown is zero, or when the annualised return is zero (which
  includes the case where the annualised return is itself not available).
\<close>

theorem calmar_ratio_entry:
  assumes "length rows \<ge> 2" and "calculate_indicators gini rows txs = Inr rep"
  shows "rep (K ''calmar_ratio'') =
     Some (let max_drawdown = calculate_max_drawdown (map TotalValue rows) * 100;
               annualized_return =
                 annualized_return_pct (elapsed_days rows) (initial_investment txs)
                   (final_value_of (map TotalValue rows))
           in if daily_returns (map TotalValue rows) \<noteq> [] \<and> max_drawdown > 0 \<and>
                 annualized_return \<noteq> 0
              then Ratio \<bar>annualized_return / max_drawdown\<bar>
              else Text ''N/A'')"
  using report_calmar [OF assms] by (simp add: calmar_entry_def Let_def)

theorem calmar_ratio_entry_witness:
  "report_entry (calculate_indicators sample_gini (frame_of [(0, 100), (365, 90)]) one_share)
     (K ''calmar_ratio'') = Some (Ratio 1) \<and>
   report_entry (calculate_indicators sample_gini (frame_of [(0, 100), (365, 121)]) one_share)
     (K ''calmar_ratio'') = Some (Text ''N/A'')"
proof -
  obtain r1 where
    r1: "calculate_indicators sample_gini (frame_of [(0, 100), (365, 90)]) one_share = Inr r1"
    using short_series_returns [of "[(0, 100), (365, 90)]" sample_gini one_share] by auto
  obtain r2 where
    r2: "calculate_indicators sample_gini (frame_of [(0, 100), (365, 121)]) one_share = Inr r2"
    using short_series_returns [of "[(0, 100), (365, 121)]" sample_gini one_share] by auto
  have "r1 (K ''calmar_ratio'') = Some (Ratio 1)"
    using calmar_ratio_entry [OF _ r1]
    by (simp add: frame_of_facts frame_of_elapsed daily_returns_samples max_drawdown_samples
        annualized_return_pct_def final_value_of_def initial_investment_def one_share_def)
  moreover have "r2 (K ''calmar_ratio'') = Some (Text ''N/A'')"
    using calmar_ratio_entry [OF _ r2]
    by (simp add: frame_of_facts frame_of_elapsed daily_returns_samples max_drawdown_samples
        annualized_return_pct_def final_value_of_def initial_investment_def one_share_def)
  ultimately show ?thesis using r1 r2 by (simp add: report_entry_def)
qed

subsection \<open>A portfolio of a single symbol\<close>

text \<open>
  The claim C9 as stated fails for a frame of one row: its single symbol has a positive
  final value, but the report then holds the "insufficient data" entry only, and no
  Gini coefficient and no diversity score.
\<close>

theorem single_symbol_counterexample:
  "TotalValue (last (frame_of [(0, 100)])) = 100 \<and>
   columns (last (frame_of [(0, 100)])) = [(''AAA'', 100)] \<and>
   report_entry (calculate_indicators sample_gini (frame_of [(0, 100)]) one_share)
     (K ''gini_concentration'') = None \<and>
   report_entry (calculate_indicators sample_gini (frame_of [(0, 100)]) one_share)
     (K ''entropy_diversity'') = None"
  by (simp add: report_entry_def calculate_indicators_def frame_of_facts frame_of_last)

text \<open>
  Claim C9, amended. For every frame with at least two rows whose last row has a
  positive total and exactly one symbol column, and every report that
  \<^const>\<open>calculate_indicators\<close> returns for it, the Gini entry is the text that starts with
  1.00 and the diversity entry is the text that starts with 0.00, both labelled as a
  single investment. The two concentration functions agree: on one weight the Gini
  coefficient is 1 and the diversity score is 0.
\<close>

theorem single_symbol_concentration:
  assumes "length rows \<ge> 2" and "calculate_indicators gini rows txs = Inr rep"
    and "TotalValue (last rows) > 0" and "length (columns (last rows)) = 1"
  shows "rep (K ''gini_concentration'') = Some (Labelled 1 ''single investment'') \<and>
         rep (K ''entropy_diversity'') = Some (Labelled 0 ''single investment'') \<and>
         calculate_gini_coefficient [w] = 1 \<and> calculate_diversity_score [w] = 0"
proof -
  from assms(1) have ne: "rows \<noteq> []" by auto
  from assms(3) have "final_value_of (map TotalValue rows) > 0"
    by (simp add: final_value_of_last [OF ne])
  from report_concentration [OF assms(1,2) this assms(4)] show ?thesis
    by (simp add: calculate_gini_coefficient_def calculate_diversity_score_def Let_def)
qed

theorem single_symbol_concentration_witness:
  "report_entry (calculate_indicators sample_gini (frame_of [(0, 100), (365, 121)]) one_share)
     (K ''gini_concentration'') = Some (Labelled 1 ''single investment'') \<and>
   report_entry (calculate_indicators sample_gini (frame_of [(0, 100), (365, 121)]) one_share)
     (K ''entropy_diversity'') = Some (Labelled 0 ''single investment'') \<and>
   calculate_gini_coefficient [100] = 1 \<and> calculate_diversity_score [100] = 0"
proof -
  obtain r where
    r: "calculate_indicators sample_gini (frame_of [(0, 100), (365, 121)]) one_share = Inr r"
    using short_series_returns [of "[(0, 100), (365, 121)]" sample_gini one_share] by auto
  from single_symbol_concentration [OF _ r, of 100] r show ?thesis
    by (simp add: report_entry_def frame_of_facts frame_of_last)
qed

subsection \<open>The total return, and a flat series\<close>

text \<open>
  The initial investment is positive whatever the transactions are, so the total return
  entry is always a percentage: the branch for a zero initial investment is dead code.
\<close>

lemma initial_investment_positive: "initial_investment txs > 0"
  by (simp add: initial_investment_def Let_def)

lemma total_return_entry_percent:
  "total_return_entry (initial_investment txs) final =
     Percent (total_return_pct (initial_investment txs) final)"
  by (simp add: total_return_entry_def initial_investment_positive)

lemma daily_returns_flat:
  "c > 0 \<Longrightarrow> daily_returns (replicate (Suc n) c) = replicate n 0"
proof (induction n)
  case 0
  then show ?case by (simp add: daily_returns_def)
next
  case (Suc n)
  then show ?case using daily_returns_Cons [of c c "replicate n c"] by simp
qed

lemma np_mean_flat: "n > 0 \<Longrightarrow> np_mean (replicate n c) = c"
  by (simp add: np_mean_def sum_list_replicate)

lemma sample_std_flat: "sample_std (replicate n c) = 0"
proof (cases "n = 0")
  case True
  then show ?thesis by (simp add: sample_std_def)
next
  case False
  then have "map (\<lambda>x. (x - np_mean (replicate n c))\<^sup>2) (replicate n c) = replicate n 0"
    by (simp add: np_mean_flat)
  then have "sum_list (map (\<lambda>x. (x - np_mean (replicate n c))\<^sup>2) (replicate n c)) = 0"
    by (simp only: sum_list_replicate)
  then show ?thesis by (simp only: sample_std_def) simp
qed

lemma rolling_windows_flat:
  "w \<le> n \<Longrightarrow> rolling_windows w (replicate n c) = replicate (n + 1 - w) (replicate w c)"
  by (auto simp: rolling_windows_def list_eq_iff_nth_eq min_def)

lemma flat_degenerate: "w \<le> n \<Longrightarrow> degenerate_window (replicate n c) w"
  by (simp add: degenerate_window_def rolling_windows_flat sample_std_flat)

lemma flat_frame_values: "map TotalValue flat_frame = replicate 21 1000"
  by (simp add: flat_frame_def frame_of_facts comp_def map_replicate_const)

text \<open>
  Claim C10, on a flat series. The claim says that every frame with at least two rows
  has a numeric total return in its report. For ten shares worth 1000 on each of 21
  days, the 20 daily returns are all zero, no 20-day window has a positive standard
  deviation, the arg-minimum over the positive deviations in
  \<^const>\<open>calculate_rolling_metrics\<close> raises, and \<^const>\<open>calculate_indicators\<close> returns no
  report at all. (\<^const>\<open>calculate_rolling_detailed_metrics\<close> guards the same case.)
\<close>

theorem flat_series_raises:
  "length flat_frame = 21 \<and>
   daily_returns (map TotalValue flat_frame) = replicate 20 0 \<and>
   calculate_rolling_metrics (daily_returns (map TotalValue flat_frame)) 20 = Inl ValueError \<and>
   calculate_indicators sample_gini flat_frame ten_shares = Inl ValueError \<and>
   report_entry (calculate_indicators sample_gini flat_frame ten_shares) (K ''total_return'') = None"
proof -
  have rets: "daily_returns (map TotalValue flat_frame) = replicate 20 0"
    using daily_returns_flat [of 1000 20] by (simp add: flat_frame_values)
  have len: "length flat_frame = 21"
    by (simp add: flat_frame_def frame_of_facts)
  have deg: "degenerate_window (daily_returns (map TotalValue flat_frame)) 20"
    unfolding rets by (rule flat_degenerate) simp
  then have roll: "calculate_rolling_metrics (daily_returns (map TotalValue flat_frame)) 20 =
      Inl ValueError"
    by (simp add: calculate_rolling_metrics_def degenerate_window_def Let_def)
  have "list_all parses (map Date flat_frame)"
    unfolding flat_frame_def by (rule frame_of_parses)
  with calculate_indicators_returns [of flat_frame sample_gini ten_shares] len deg
  have "\<not> (\<exists>rep. calculate_indicators sample_gini flat_frame ten_shares = Inr rep)"
    by simp
  then have ci: "calculate_indicators sample_gini flat_frame ten_shares = Inl ValueError"
    by (cases "calculate_indicators sample_gini flat_frame ten_shares")
       (auto intro: py_error.exhaust)
  from rets len roll ci show ?thesis by (simp add: report_entry_def)
qed

subsection \<open>Rolling windows in the report\<close>

lemma risk_entries_flat_names:
  "n \<noteq> ''rolling_analysis'' \<Longrightarrow>
   risk_entries gini rows txs rets tv initial final fd ld ind (W w n) = ind (W w n)"
  by (simp add: risk_entries_def Let_def map_add_def win_loss_untouched enhanced_W
      split: option.splits)

lemma rolling_entries_present:
  assumes "rolling_entries rets w ind = Inr ind'" and "n \<in> set flat_names"
  shows "ind' (W w n) = None \<longleftrightarrow> length rets < w \<and> ind (W w n) = None"
  using assms
  by (auto simp: rolling_entries_def calculate_rolling_metrics_def Let_def map_add_def
      flat_names_def split: if_splits sum.splits)

lemma report_flat_names:
  assumes "length rows \<ge> 2" and "calculate_indicators gini rows txs = Inr rep"
    and "n \<in> set flat_names" and "w = 20 \<or> w = 60"
  shows "rep (W w n) \<noteq> None \<longleftrightarrow> length (daily_returns (map TotalValue rows)) \<ge> w"
  using assms(1,2)
proof (cases rule: calculate_indicators_cases)
  case no_returns
  with assms(4) show ?thesis
    by (auto simp: portfolio_entries_untouched no_risk_entries_lookup)
next
  case (returns dates i2 i3)
  from assms(3) have na: "n \<noteq> ''rolling_analysis''" by (auto simp: flat_names_def)
  have rep: "rep (W w n) = i3 (W w n)"
    using returns(4) by (simp add: portfolio_entries_untouched drawdown_entries_untouched)
  from assms(4) show ?thesis
  proof
    assume w: "w = 20"
    from rolling_entries_other(2) [OF returns(3), of 20 n]
      rolling_entries_present [OF returns(2) assms(3)] rep w na
    show ?thesis by (simp add: risk_entries_flat_names not_less)
  next
    assume w: "w = 60"
    from rolling_entries_other(2) [OF returns(2), of 60 n]
      rolling_entries_present [OF returns(3) assms(3)] rep w na
    show ?thesis by (simp add: risk_entries_flat_names not_less)
  qed
qed

lemma detailed_marker:
  "calculate_rolling_detailed_metrics xs w = [(W w ''rolling_analysis'', Text ''insufficient data'')]
     \<longleftrightarrow> length xs < w"
  by (simp add: calculate_rolling_detailed_metrics_def Let_def)

lemma rolling_marker:
  "calculate_rolling_metrics xs w = Inr [(W w ''rolling_analysis'', Text ''insufficient data'')]
     \<longleftrightarrow> length xs < w"
  by (simp add: calculate_rolling_metrics_def Let_def)

lemma daily_returns_step:
  "c > 0 \<Longrightarrow> daily_returns (replicate (Suc n) c @ [d]) = replicate n 0 @ [(d - c) / c]"
proof (induction n)
  case 0
  then show ?case using daily_returns_Cons [of c d "[]"] by (simp add: daily_returns_def)
next
  case (Suc n)
  then show ?case using daily_returns_Cons [of c c "replicate n c @ [d]"] by simp
qed

lemma step_frame_values: "map TotalValue step_frame = replicate 20 1000 @ [1100]"
  by (simp add: step_frame_def frame_of_facts comp_def map_replicate_const)

lemma step_frame_returns:
  "daily_returns (map TotalValue step_frame) = replicate 19 0 @ [1 / 10]"
  using daily_returns_step [of 1000 19 1100] by (simp add: step_frame_values)

lemma step_frame_not_degenerate:
  "\<not> degenerate_window (replicate 19 0 @ [1 / 10]) 20"
proof -
  have w: "rolling_windows 20 (replicate 19 0 @ [1 / 10]) = [replicate 19 0 @ [1 / 10]]"
    by (simp add: rolling_windows_def)
  have m: "np_mean (replicate 19 0 @ [1 / 10]) = 1 / 200"
    by (simp add: np_mean_def sum_list_replicate)
  have "sample_std (replicate 19 0 @ [1 / 10]) > 0"
    unfolding sample_std_def m by (simp add: sum_list_replicate power2_eq_square)
  with w show ?thesis by (simp add: degenerate_window_def)
qed

text \<open>
  The claim C6 as stated fails for a short series: a frame of two rows has one daily
  return, its report is returned with a numeric total return, and the report holds
  nothing under the names of the 20-day and the 60-day rolling analysis: the windows are
  skipped without an "insufficient data" marker.
\<close>

theorem rolling_marker_counterexample:
  "length (daily_returns (map TotalValue (frame_of [(0, 100), (1, 110)]))) = 1 \<and>
   report_entry (calculate_indicators sample_gini (frame_of [(0, 100), (1, 110)]) one_share)
     (K ''total_return'') = Some (Percent 10) \<and>
   report_entry (calculate_indicators sample_gini (frame_of [(0, 100), (1, 110)]) one_share)
     (W 20 ''rolling_analysis'') = None \<and>
   report_entry (calculate_indicators sample_gini (frame_of [(0, 100), (1, 110)]) one_share)
     (W 60 ''rolling_analysis'') = None"
proof -
  obtain rep where
    r: "calculate_indicators sample_gini (frame_of [(0, 100), (1, 110)]) one_share = Inr rep"
    using short_series_returns [of "[(0, 100), (1, 110)]" sample_gini one_share] by auto
  from report_rolling(2) [OF _ r, of 20] report_rolling(2) [OF _ r, of 60]
    report_returns(1) [OF _ r] r
  show ?thesis
    by (simp add: report_entry_def frame_of_facts daily_returns_samples total_return_entry_def
        total_return_pct_def initial_investment_def final_value_of_def one_share_def)
qed

text \<open>
  Claim C6, amended. \<^const>\<open>calculate_indicators\<close> computes the rolling-window metrics at
  the windows 20 and 60. In every report that it returns for a frame with at least two
  rows: the four entries of \<^const>\<open>calculate_rolling_metrics\<close> for a window are present
  exactly when the daily-return series is at least as long as the window, so a series of
  length at least 20 has the 20-day rolling metrics; the grouped analyses of
  \<^const>\<open>calculate_rolling_detailed_metrics\<close> for both windows are present exactly when the
  series has at least 60 entries; and a skipped window leaves no entry, never the
  "insufficient data" marker. That marker is what the two analysers themselves return,
  exactly when they are called on a series shorter than the window.
\<close>

theorem rolling_windows_in_report:
  assumes "length rows \<ge> 2" and "calculate_indicators gini rows txs = Inr rep"
  shows "list_all (\<lambda>n. (rep (W 20 n) \<noteq> None) = (20 \<le> length (daily_returns (map TotalValue rows))))
           flat_names \<and>
         list_all (\<lambda>n. (rep (W 60 n) \<noteq> None) = (60 \<le> length (daily_returns (map TotalValue rows))))
           flat_names \<and>
         rep (W w ''rolling_analysis'') =
           (if (w = 20 \<or> w = 60) \<and> 60 \<le> length (daily_returns (map TotalValue rows))
            then Some (Group (calculate_rolling_detailed_metrics
                                (daily_returns (map TotalValue rows)) w))
            else None) \<and>
         rep (W w ''rolling_analysis'') \<noteq> Some (Text ''insufficient data'') \<and>
         (calculate_rolling_detailed_metrics xs w =
            [(W w ''rolling_analysis'', Text ''insufficient data'')] \<longleftrightarrow> length xs < w) \<and>
         (calculate_rolling_metrics xs w =
            Inr [(W w ''rolling_analysis'', Text ''insufficient data'')] \<longleftrightarrow> length xs < w)"
proof -
  have a: "list_all (\<lambda>n. (rep (W 20 n) \<noteq> None) = (20 \<le> length (daily_returns (map TotalValue rows))))
           flat_names"
    unfolding list_all_iff using report_flat_names [OF assms, of _ 20] by blast
  have b: "list_all (\<lambda>n. (rep (W 60 n) \<noteq> None) = (60 \<le> length (daily_returns (map TotalValue rows))))
           flat_names"
    unfolding list_all_iff using report_flat_names [OF assms, of _ 60] by blast
  note c = report_rolling(2) [OF assms, of w]
  from c have d: "rep (W w ''rolling_analysis'') \<noteq> Some (Text ''insufficient data'')"
    by (simp split: if_splits)
  from a b c d detailed_marker [of xs w] rolling_marker [of xs w] show ?thesis by blast
qed


theorem rolling_windows_in_report_witness:
  "length (daily_returns (map TotalValue step_frame)) = 20 \<and>
   list_all (\<lambda>n. report_entry (calculate_indicators sample_gini step_frame ten_shares) (W 20 n)
                  \<noteq> None) flat_names \<and>
   list_all (\<lambda>n. report_entry (calculate_indicators sample_gini step_frame ten_shares) (W 60 n)
                  = None) flat_names \<and>
   report_entry (calculate_indicators sample_gini step_frame ten_shares)
     (W 20 ''rolling_analysis'') = None"
proof -
  have len: "length step_frame = 21"
    by (simp add: step_frame_def frame_of_facts)
  have "list_all parses (map Date step_frame)"
    unfolding step_frame_def by (rule frame_of_parses)
  with calculate_indicators_returns [of step_frame sample_gini ten_shares] len
    step_frame_not_degenerate
  obtain rep where r: "calculate_indicators sample_gini step_frame ten_shares = Inr rep"
    by (auto simp: step_frame_returns degenerate_window_def)
  from rolling_windows_in_report [OF _ r, of 20] len r show ?thesis
    by (simp add: report_entry_def step_frame_returns list_all_iff)
qed

end
